theory Spec2Isabelle
  imports Main "HOL-Library.Word"
begin

section \<open>JavaScript values and strings\<close>

text \<open>
  The option objects handed to the wrapper are untyped at run time
  (\<^verbatim>\<open>{[key:string]: any}\<close>, \<^verbatim>\<open>...args: any[]\<close>), and the code branches on
  \<^verbatim>\<open>typeof\<close>, \<^verbatim>\<open>Array.isArray\<close> and truthiness. The values it can meet are modelled by
  one datatype.

  \<^item> A string is a list of code units; \<^typ>\<open>char\<close> covers the code units U+0000 to U+00FF.
  \<^item> A number is an integer from \<open>-2^53\<close> to \<open>2^53 - 1\<close>, held as a signed word of 54 bits:
    \<open>JNum w\<close> is the number \<open>sint w\<close> (a numeral written beyond the range is, as a word, a
    number of the range). Each of these integers is a value of the double-precision format,
    and \<^verbatim>\<open>Number.prototype.toString\<close> prints it as its plain decimal numeral. The other
    numbers (fractions, integers beyond that range, NaN and the infinities) are outside the
    model.
  \<^item> An object is the list of its own enumerable properties in \<^verbatim>\<open>for ... in\<close> order.
\<close>

datatype jsval =
    JUndefined
  | JNull
  | JBool bool
  | JNum "54 word"
  | JStr string
  | JArr "jsval list"
  | JObj "(string \<times> jsval) list"

datatype jstype = TUndefined | TObject | TBoolean | TNumber | TString

fun typeof :: "jsval \<Rightarrow> jstype" where
  "typeof JUndefined = TUndefined"
| "typeof JNull = TObject"
| "typeof (JBool b) = TBoolean"
| "typeof (JNum n) = TNumber"
| "typeof (JStr s) = TString"
| "typeof (JArr xs) = TObject"
| "typeof (JObj kvs) = TObject"

fun truthy :: "jsval \<Rightarrow> bool" where
  "truthy JUndefined = False"
| "truthy JNull = False"
| "truthy (JBool b) = b"
| "truthy (JNum n) = (n \<noteq> 0)"
| "truthy (JStr s) = (s \<noteq> [])"
| "truthy (JArr xs) = True"
| "truthy (JObj kvs) = True"

text \<open>The characters matched by \<^verbatim>\<open>\s\<close> among the code units below U+0100: tab, line feed,
  vertical tab, form feed, carriage return, space and the no-break space.\<close>

definition isSpace :: "char \<Rightarrow> bool" where
  "isSpace c = (c \<in> {CHR 0x09, CHR 0x0A, CHR 0x0B, CHR 0x0C, CHR 0x0D, CHR 0x20, CHR 0xA0})"

text \<open>\<^verbatim>\<open>s.search(/\s+/) > -1\<close>\<close>

definition has_whitespace :: "string \<Rightarrow> bool" where
  "has_whitespace s = (\<exists>c \<in> set s. isSpace c)"

text \<open>The character class \<^verbatim>\<open>[A-Z]\<close>.\<close>

definition isUpperAZ :: "char \<Rightarrow> bool" where
  "isUpperAZ c = (let n = (of_char c :: nat) in 65 \<le> n \<and> n \<le> 90)"

text \<open>\<^verbatim>\<open>String.prototype.toLowerCase\<close> on one code unit below U+0100: the letters A to Z and the
  accented capitals U+00C0 to U+00DE (the multiplication sign U+00D7 apart) move up by 32.\<close>

definition toLowerCase_char :: "char \<Rightarrow> char" where
  "toLowerCase_char c =
     (let n = (of_char c :: nat) in
      if (65 \<le> n \<and> n \<le> 90) \<or> (192 \<le> n \<and> n \<le> 222 \<and> n \<noteq> 215)
      then char_of (n + 32) else c)"

definition toLowerCase :: "string \<Rightarrow> string" where
  "toLowerCase s = map toLowerCase_char s"

text \<open>\<^verbatim>\<open>key.replace(/([A-Z])/g, '-$1')\<close>: the scan goes left to right, and every match is
  replaced by a hyphen followed by the matched letter.\<close>

fun replace_upper :: "string \<Rightarrow> string" where
  "replace_upper [] = []"
| "replace_upper (c # cs) =
     (if isUpperAZ c then CHR ''-'' # c # replace_upper cs else c # replace_upper cs)"

text \<open>The decimal numeral of an integer: the digits of a number that is not negative, most
  significant first (\<open>decimal_digits\<close> is applied to such numbers only), and a minus sign
  before the digits of the opposite of a negative one.\<close>

function decimal_digits :: "int \<Rightarrow> string" where
  "decimal_digits n =
     (if n < 10 then [char_of (48 + n)]
      else decimal_digits (n div 10) @ [char_of (48 + n mod 10)])"
  by pat_completeness auto
termination
  by (relation "measure nat") auto

declare decimal_digits.simps [simp del]

definition decimal_numeral :: "int \<Rightarrow> string" where
  "decimal_numeral i =
     (if i < 0 then CHR ''-'' # decimal_digits (- i) else decimal_digits i)"

text \<open>The numeral of an array index, as the keys of an array are written.\<close>

definition string_of_nat :: "nat \<Rightarrow> string" where
  "string_of_nat n = decimal_digits (int n)"

text \<open>\<^verbatim>\<open>Number.prototype.toString\<close> on a number of the model: the decimal numeral of the integer
  that the word holds.\<close>

definition number_toString :: "54 word \<Rightarrow> string" where
  "number_toString n = decimal_numeral (sint n)"

text \<open>What makes a numeral decimal: its characters are digits, and they give back the number
  when read in base ten.\<close>

definition isDigit :: "char \<Rightarrow> bool" where
  "isDigit c = (let n = (of_char c :: int) in 48 \<le> n \<and> n \<le> 57)"

definition decimal_value :: "string \<Rightarrow> int" where
  "decimal_value s = foldl (\<lambda>a c. 10 * a + (of_char c - 48)) 0 s"

text \<open>\<^verbatim>\<open>Array.prototype.join\<close> on the strings of the elements.\<close>

fun join :: "string \<Rightarrow> string list \<Rightarrow> string" where
  "join sep [] = []"
| "join sep [x] = x"
| "join sep (x # y # ys) = x @ sep @ join sep (y # ys)"

text \<open>The conversion to a string that \<^verbatim>\<open>join\<close>, string concatenation and template literals
  apply. Inside \<^verbatim>\<open>join\<close> an element that is \<^verbatim>\<open>null\<close> or \<^verbatim>\<open>undefined\<close> gives the empty string.\<close>

fun toString :: "jsval \<Rightarrow> string"
  and join_element :: "jsval \<Rightarrow> string" where
  "toString JUndefined = ''undefined''"
| "toString JNull = ''null''"
| "toString (JBool b) = (if b then ''true'' else ''false'')"
| "toString (JNum n) = number_toString n"
| "toString (JStr s) = s"
| "toString (JArr xs) = join '','' (map join_element xs)"
| "toString (JObj kvs) = ''[object Object]''"
| "join_element v = (if v = JNull \<or> v = JUndefined then [] else toString v)"

section \<open>Errors\<close>

text \<open>Every \<^verbatim>\<open>throw\<close> and every rejected promise of the source is a value of this type.
  \<^item> \<open>OptionsParseError\<close>: the class \<^verbatim>\<open>DockerToolboxOptionsParseError\<close> of \<^verbatim>\<open>util.ts\<close>, with its
    message;
  \<^item> \<open>ExitError\<close>: the \<^verbatim>\<open>Error\<close> built by the \<^verbatim>\<open>close\<close> handler of \<^verbatim>\<open>_spawnDockerToolbox\<close>, with
    its message;
  \<^item> \<open>ChildError\<close>: the error object that the child process hands to its \<^verbatim>\<open>error\<close> listeners;
  \<^item> \<open>TypeError\<close>: raised by the runtime when a property of \<^verbatim>\<open>undefined\<close> or \<^verbatim>\<open>null\<close> is read;
  \<^item> \<open>SyntaxError\<close>: raised by \<^verbatim>\<open>JSON.parse\<close> and by \<^verbatim>\<open>new RegExp\<close>.\<close>

datatype error =
    OptionsParseError string
  | ExitError string
  | ChildError string
  | TypeError
  | SyntaxError

section \<open>The argument encoder (\<^verbatim>\<open>optionsToArgs\<close> of \<^verbatim>\<open>util.ts\<close>)\<close>

text \<open>The callback of \<^verbatim>\<open>value.forEach\<close> in the object branch: \<open>None\<close> when it returns,
  the error when it throws.\<close>

definition check_element :: "jsval \<Rightarrow> error option" where
  "check_element v =
     (case v of
        JStr s \<Rightarrow>
          if has_whitespace s
          then Some (OptionsParseError
            ''Options object argument value array element may not contain whitespace characters'')
          else None
      | _ \<Rightarrow>
          if typeof v = TObject
          then Some (OptionsParseError
            ''Options object argument value array element may only be a string or a number'')
          else None)"

fun forEach_check :: "jsval list \<Rightarrow> error option" where
  "forEach_check [] = None"
| "forEach_check (v # vs) =
     (case check_element v of Some e \<Rightarrow> Some e | None \<Rightarrow> forEach_check vs)"

text \<open>The checks on one inner value of an object-valued option (lines 52 to 70).\<close>

definition check_value :: "jsval \<Rightarrow> error option" where
  "check_value v =
     (case v of
        JStr s \<Rightarrow>
          if has_whitespace s
          then Some (OptionsParseError
            ''Options object argument value may not contain whitespace characters'')
          else None
      | JArr vs \<Rightarrow> forEach_check vs
      | _ \<Rightarrow>
          if truthy v \<and> typeof v = TObject
          then Some (OptionsParseError
            (''Options object argument value may only be a string, number, boolean or an array containing strings, numbers and booleans. ''
              @ toString v @ ''was received instead.''))
          else None)"

text \<open>The inner loop \<^verbatim>\<open>for(const key in optionValue)\<close>; \<open>optArgs\<close> is the token list built so
  far, which a \<^verbatim>\<open>throw\<close> discards.\<close>

fun objectArgs :: "string \<Rightarrow> (string \<times> jsval) list \<Rightarrow> string list \<Rightarrow> error + string list" where
  "objectArgs optKey [] optArgs = Inr optArgs"
| "objectArgs optKey ((key, v) # rest) optArgs =
     (if has_whitespace key
      then Inl (OptionsParseError
        ''Options object argument key may not contain whitespace characters'')
      else case check_value v of
             Some e \<Rightarrow> Inl e
           | None \<Rightarrow> objectArgs optKey rest (optArgs @ [optKey, key @ ''='' @ toString v]))"

text \<open>Lines 21 and 22: the flag of an option.\<close>

definition optKey_of :: "string \<Rightarrow> string \<Rightarrow> string" where
  "optKey_of prefix key = ''--'' @ prefix @ toLowerCase (replace_upper key)"

text \<open>The outer loop \<^verbatim>\<open>for(let key in options)\<close>, one entry at a time, in the order of the
  \<^verbatim>\<open>if\<close> chain of the source.\<close>

fun optionsLoop :: "string \<Rightarrow> (string \<times> jsval) list \<Rightarrow> string list \<Rightarrow> error + string list" where
  "optionsLoop prefix [] optArgs = Inr optArgs"
| "optionsLoop prefix ((key, optionValue) # rest) optArgs =
     (let optKey = optKey_of prefix key in
      case optionValue of
        JBool b \<Rightarrow> optionsLoop prefix rest (if b then optArgs @ [optKey] else optArgs)
      | JStr s \<Rightarrow>
          optionsLoop prefix rest
            (optArgs @ [optKey, if has_whitespace s then [CHR 0x22] @ s @ [CHR 0x22] else s])
      | JNum n \<Rightarrow> optionsLoop prefix rest (optArgs @ [optKey, number_toString n])
      | JArr xs \<Rightarrow> optionsLoop prefix rest (optArgs @ [optKey, join '','' (map join_element xs)])
      | JObj kvs \<Rightarrow>
          (case objectArgs optKey kvs optArgs of
             Inl e \<Rightarrow> Inl e
           | Inr optArgs' \<Rightarrow> optionsLoop prefix rest optArgs')
      | _ \<Rightarrow> optionsLoop prefix rest optArgs)"

text \<open>\<^verbatim>\<open>optionsToArgs(options, parseOptions)\<close>. The second argument is \<open>None\<close> when
  \<^verbatim>\<open>parseOptions\<close> or its \<^verbatim>\<open>prefix\<close> is absent; \<^verbatim>\<open>parseOptions.prefix || ''\<close> then gives the
  empty prefix.\<close>

definition prefix_of :: "string option \<Rightarrow> string" where
  "prefix_of parseOptions = (case parseOptions of None \<Rightarrow> [] | Some p \<Rightarrow> p)"

definition optionsToArgs :: "(string \<times> jsval) list \<Rightarrow> string option \<Rightarrow> error + string list" where
  "optionsToArgs opts parseOptions = optionsLoop (prefix_of parseOptions) opts []"

text \<open>The enumeration \<^verbatim>\<open>for(key in options)\<close> of a value that a caller passes as the options:
  the properties of an object, the indices of an array or of a string, and nothing for any
  other value (\<^verbatim>\<open>null\<close> and \<^verbatim>\<open>undefined\<close> included).\<close>

definition for_in :: "jsval \<Rightarrow> (string \<times> jsval) list" where
  "for_in v =
     (case v of
        JObj kvs \<Rightarrow> kvs
      | JArr xs \<Rightarrow> zip (map string_of_nat [0..<length xs]) xs
      | JStr s \<Rightarrow> zip (map string_of_nat [0..<length s]) (map (\<lambda>c. JStr [c]) s)
      | _ \<Rightarrow> [])"

section \<open>The process facade (\<^verbatim>\<open>_spawnDockerToolbox\<close>)\<close>

text \<open>A promise settles once: \<^verbatim>\<open>resolve\<close> and \<^verbatim>\<open>reject\<close> on a settled promise do nothing.\<close>

datatype 'a promise = Pending | Resolved 'a | Rejected error

definition resolve :: "'a \<Rightarrow> 'a promise \<Rightarrow> 'a promise" where
  "resolve v p = (case p of Pending \<Rightarrow> Resolved v | _ \<Rightarrow> p)"

definition reject :: "error \<Rightarrow> 'a promise \<Rightarrow> 'a promise" where
  "reject e p = (case p of Pending \<Rightarrow> Rejected e | _ \<Rightarrow> p)"

text \<open>\<^verbatim>\<open>promise.then(f)\<close>, for a callback that returns a value or throws.\<close>

definition then_promise :: "'a promise \<Rightarrow> ('a \<Rightarrow> error + 'b) \<Rightarrow> 'b promise" where
  "then_promise p f =
     (case p of
        Pending \<Rightarrow> Pending
      | Rejected e \<Rightarrow> Rejected e
      | Resolved v \<Rightarrow> (case f v of Inl e \<Rightarrow> Rejected e | Inr w \<Rightarrow> Resolved w))"

text \<open>The two events of the child process that the facade listens to: \<^verbatim>\<open>error\<close> with
  the error object, \<^verbatim>\<open>close\<close> with the exit code (\<^verbatim>\<open>null\<close>, here \<open>None\<close>, when a signal
  ended the process) and the signal name.\<close>

datatype child_event = ErrorEvent error | CloseEvent "int option" "string option"

text \<open>The two listeners of lines 48 to 59. The \<^verbatim>\<open>console.log\<close> of the \<^verbatim>\<open>close\<close> listener is
  left out. An exit code is a small integer, which the concatenation prints as its decimal
  numeral.\<close>

definition on_event :: "string \<Rightarrow> child_event \<Rightarrow> unit promise \<Rightarrow> unit promise" where
  "on_event program ev p =
     (case ev of
        ErrorEvent err \<Rightarrow> reject err p
      | CloseEvent code signal \<Rightarrow>
          if code = Some 0 then resolve () p
          else reject (ExitError (program @ '' responded with non-zero code ''
                 @ (case code of None \<Rightarrow> ''null'' | Some c \<Rightarrow> decimal_numeral c))) p)"

text \<open>The completion signal after the child has emitted the events \<open>evs\<close>, in order.\<close>

definition completion :: "string \<Rightarrow> child_event list \<Rightarrow> unit promise" where
  "completion program evs = foldl (\<lambda>p ev. on_event program ev p) Pending evs"

text \<open>What \<^verbatim>\<open>spawn\<close> receives. The process table \<open>procs\<close> lists the requests of the
  subprocesses started so far; starting one appends its request, and its position in the table
  stands for the \<^verbatim>\<open>childProcess\<close> of the returned handle.\<close>

record spawnOptions =
  env :: "(string \<times> jsval) list option"
  windowsHide :: bool

record spawn_request =
  program :: string
  argv :: "jsval list"
  options :: spawnOptions

type_synonym procs = "spawn_request list"

definition spawnDockerToolbox ::
  "string \<Rightarrow> jsval list \<Rightarrow> (string \<times> jsval) list option \<Rightarrow> procs \<Rightarrow> nat \<times> procs" where
  "spawnDockerToolbox prog args e ps =
     (length ps,
      ps @ [\<lparr>program = prog, argv = args, options = \<lparr>env = e, windowsHide = True\<rparr>\<rparr>])"

definition spawnDockerCompose ::
  "jsval list \<Rightarrow> (string \<times> jsval) list option \<Rightarrow> procs \<Rightarrow> nat \<times> procs" where
  "spawnDockerCompose args e ps = spawnDockerToolbox ''docker-compose'' args e ps"

definition spawnDockerMachine ::
  "jsval list \<Rightarrow> (string \<times> jsval) list option \<Rightarrow> procs \<Rightarrow> nat \<times> procs" where
  "spawnDockerMachine args e ps = spawnDockerToolbox ''docker-machine'' args e ps"

section \<open>String primitives\<close>

text \<open>\<^verbatim>\<open>s.indexOf(sub)\<close>: the position of the first occurrence, or \<open>-1\<close>.\<close>

fun index_of :: "string \<Rightarrow> string \<Rightarrow> nat option" where
  "index_of [] sub = (if sub = [] then Some 0 else None)"
| "index_of (c # cs) sub =
     (if take (length sub) (c # cs) = sub then Some 0
      else map_option Suc (index_of cs sub))"

definition indexOf :: "string \<Rightarrow> string \<Rightarrow> int" where
  "indexOf s sub = (case index_of s sub of None \<Rightarrow> - 1 | Some i \<Rightarrow> int i)"

text \<open>\<^verbatim>\<open>s.substr(start, len)\<close> and \<^verbatim>\<open>s.substr(start)\<close>: a negative start counts from the end, and
  a length below zero gives the empty string.\<close>

definition substr :: "string \<Rightarrow> int \<Rightarrow> int \<Rightarrow> string" where
  "substr s start len =
     (let n = int (length s);
          st = (if start < 0 then max (n + start) 0 else min start n)
      in take (nat len) (drop (nat st) s))"

definition substr_from :: "string \<Rightarrow> int \<Rightarrow> string" where
  "substr_from s start =
     (let n = int (length s);
          st = (if start < 0 then max (n + start) 0 else min start n)
      in drop (nat st) s)"

text \<open>\<^verbatim>\<open>s.substring(a, b)\<close>: both ends are clamped to the string, and swapped when \<open>a > b\<close>.\<close>

definition substring :: "string \<Rightarrow> int \<Rightarrow> int \<Rightarrow> string" where
  "substring s a b =
     (let n = int (length s);
          a' = min (max a 0) n;
          b' = min (max b 0) n;
          lo = min a' b';
          hi = max a' b'
      in take (nat (hi - lo)) (drop (nat lo) s))"

text \<open>\<^verbatim>\<open>out.split(/\r\n|\n/)\<close>; \<open>cur\<close> is the line being read.\<close>

fun split_from :: "string \<Rightarrow> string \<Rightarrow> string list" where
  "split_from cur [] = [cur]"
| "split_from cur (c # cs) =
     (if c = CHR 0x0D \<and> cs \<noteq> [] \<and> hd cs = CHR 0x0A then cur # split_from [] (tl cs)
      else if c = CHR 0x0A then cur # split_from [] cs
      else split_from (cur @ [c]) cs)"

definition split_lines :: "string \<Rightarrow> string list" where
  "split_lines out = split_from [] out"

section \<open>The line splitter (\<^verbatim>\<open>LineReadStream._read\<close>)\<close>

text \<open>
  The state of one call of \<^verbatim>\<open>_read\<close>: its local variable \<^verbatim>\<open>currentLine\<close>, whether its
  \<^verbatim>\<open>chunkHandler\<close> is still a listener of the source stream, and the units handed to
  \<^verbatim>\<open>this.push\<close> so far. What \<^verbatim>\<open>push\<close> returns is decided by the readable stream and its
  consumer, not by this code: it is the parameter \<open>push_ok\<close>, applied to all the units pushed
  so far, the present one included.

  The \<^verbatim>\<open>do ... while\<close> loop need not end, so it runs on fuel: one unit for each pass through
  its body. \<open>OutOfFuel\<close> carries the state reached when the fuel is used up.
\<close>

record lrs =
  currentLine :: string
  attached :: bool
  pushed :: "string list"

datatype 's run = Done 's | Threw error 's | OutOfFuel 's

definition lrs_init :: lrs where
  "lrs_init = \<lparr>currentLine = [], attached = True, pushed = []\<rparr>"

fun chunkLoop :: "(string list \<Rightarrow> bool) \<Rightarrow> nat \<Rightarrow> lrs \<Rightarrow> string \<Rightarrow> lrs run" where
  "chunkLoop push_ok 0 st chunkStr = OutOfFuel st"
| "chunkLoop push_ok (Suc fuel) st chunkStr =
     (let newLineIndex = indexOf chunkStr [CHR 0x0A] in
      if newLineIndex > - 1 then
        (let line = currentLine st @ substr chunkStr 0 newLineIndex;
             chunkStr' = substr_from chunkStr newLineIndex;
             shouldContinue = push_ok (pushed st @ [line]);
             st' = st\<lparr>currentLine := [], pushed := pushed st @ [line]\<rparr>
         in if \<not> shouldContinue then Done (st'\<lparr>attached := False\<rparr>)
            else chunkLoop push_ok fuel st' chunkStr')
      else Done (st\<lparr>currentLine := currentLine st @ chunkStr\<rparr>))"

definition chunkHandler :: "(string list \<Rightarrow> bool) \<Rightarrow> nat \<Rightarrow> lrs \<Rightarrow> string \<Rightarrow> lrs run" where
  "chunkHandler push_ok fuel st chunk = chunkLoop push_ok fuel st chunk"

text \<open>The source stream emits the chunks in order; a handler that has been taken off is not
  called, and a handler that does not return keeps the later chunks from being delivered.
  Each call of the handler has its own fuel.\<close>

fun feed :: "(string list \<Rightarrow> bool) \<Rightarrow> nat \<Rightarrow> lrs \<Rightarrow> string list \<Rightarrow> lrs run" where
  "feed push_ok fuel st [] = Done st"
| "feed push_ok fuel st (chunk # chunks) =
     (if \<not> attached st then feed push_ok fuel st chunks
      else case chunkHandler push_ok fuel st chunk of
             Done st' \<Rightarrow> feed push_ok fuel st' chunks
           | r \<Rightarrow> r)"

section \<open>The event stream (\<^verbatim>\<open>DockerCompose.events\<close>)\<close>

text \<open>
  What the subscribers of \<^verbatim>\<open>eventsSubject\<close> receive. A subject that has completed or failed is
  stopped and delivers nothing more.

  \<^verbatim>\<open>JSON.parse\<close> belongs to the platform: it is the parameter \<open>JSON_parse\<close>, \<open>None\<close> where it
  throws its \<^verbatim>\<open>SyntaxError\<close>.
\<close>

datatype notification = Next jsval | Error error | Complete

definition isStopped :: "notification list \<Rightarrow> bool" where
  "isStopped ns = (\<exists>n \<in> set ns. n = Complete \<or> (case n of Error e \<Rightarrow> True | _ \<Rightarrow> False))"

definition subject_next :: "jsval \<Rightarrow> notification list \<Rightarrow> notification list" where
  "subject_next v ns = (if isStopped ns then ns else ns @ [Next v])"

definition subject_error :: "error \<Rightarrow> notification list \<Rightarrow> notification list" where
  "subject_error e ns = (if isStopped ns then ns else ns @ [Error e])"

definition subject_complete :: "notification list \<Rightarrow> notification list" where
  "subject_complete ns = (if isStopped ns then ns else ns @ [Complete])"

record events_state =
  ev_currentLine :: string
  delivered :: "notification list"

definition events_init :: events_state where
  "events_init = \<lparr>ev_currentLine = [], delivered = []\<rparr>"

text \<open>The listener of \<^verbatim>\<open>stdout\<close> (lines 793 to 814). An exception of \<^verbatim>\<open>JSON.parse\<close> leaves the
  listener at once, before \<^verbatim>\<open>currentLine\<close> is reset: \<open>Threw\<close> carries the state at that
  moment.\<close>

fun eventsLoop :: "(string \<Rightarrow> jsval option) \<Rightarrow> nat \<Rightarrow> events_state \<Rightarrow> string \<Rightarrow> events_state run" where
  "eventsLoop JSON_parse 0 st chunkStr = OutOfFuel st"
| "eventsLoop JSON_parse (Suc fuel) st chunkStr =
     (let newLineIndex = indexOf chunkStr [CHR 0x0A] in
      if newLineIndex > - 1 then
        (let line = ev_currentLine st @ substr chunkStr 0 newLineIndex;
             chunkStr' = substr_from chunkStr newLineIndex
         in case JSON_parse line of
              None \<Rightarrow> Threw SyntaxError (st\<lparr>ev_currentLine := line\<rparr>)
            | Some eventObj \<Rightarrow>
                eventsLoop JSON_parse fuel
                  \<lparr>ev_currentLine = [], delivered = subject_next eventObj (delivered st)\<rparr>
                  chunkStr')
      else Done (st\<lparr>ev_currentLine := ev_currentLine st @ chunkStr\<rparr>))"

definition events_data :: "(string \<Rightarrow> jsval option) \<Rightarrow> nat \<Rightarrow> events_state \<Rightarrow> string \<Rightarrow> events_state run" where
  "events_data JSON_parse fuel st chunk = eventsLoop JSON_parse fuel st chunk"

text \<open>The two callbacks of \<^verbatim>\<open>eventsPromise.then\<close> (lines 785 to 789), once the completion signal
  has settled.\<close>

definition events_settled :: "unit promise \<Rightarrow> events_state \<Rightarrow> events_state" where
  "events_settled p st =
     (case p of
        Pending \<Rightarrow> st
      | Resolved u \<Rightarrow> st\<lparr>delivered := subject_complete (delivered st)\<rparr>
      | Rejected err \<Rightarrow> st\<lparr>delivered := subject_error err (delivered st)\<rparr>)"

section \<open>The environment parser (\<^verbatim>\<open>DockerMachine.env\<close>) and the host handle\<close>

text \<open>
  The regular-expression engine belongs to the platform. It is the parameter \<open>RegExp\<close>:
  applied to the source text of a pattern (the flag is always \<^verbatim>\<open>i\<close>) it gives \<open>None\<close> where
  \<^verbatim>\<open>new RegExp\<close> throws its \<^verbatim>\<open>SyntaxError\<close>, and otherwise the function \<^verbatim>\<open>line.match(regExp)\<close>,
  whose value is \<open>None\<close> for \<^verbatim>\<open>null\<close> and otherwise the match array (the whole match, then
  the groups; a group that took no part is \<^verbatim>\<open>undefined\<close>).
\<close>

type_synonym regexp_engine = "string \<Rightarrow> (string \<Rightarrow> jsval list option) option"

definition DOCKER_MACHINE_NAME :: string where
  "DOCKER_MACHINE_NAME = ''DOCKER_MACHINE_NAME''"

text \<open>
  \<^verbatim>\<open>obj[key] = value\<close> on a plain object held as its property list, in the order in which
  \<^verbatim>\<open>for ... in\<close> visits it: the array indices (the canonical numerals below \<open>2^32 - 1\<close>) in
  ascending order first, then the other names in the order of their creation.
  \<^item> A property that exists keeps its place and takes the new value.
  \<^item> A new array index goes before the first name that is not an array index or is a greater
    one; any other new name goes to the end.
  \<^item> The name \<^verbatim>\<open>__proto__\<close> is the accessor inherited from \<^verbatim>\<open>Object.prototype\<close>: assigning to it
    creates no property of the object.
\<close>

definition is_array_index :: "string \<Rightarrow> bool" where
  "is_array_index k =
     (k \<noteq> [] \<and> list_all isDigit k \<and> decimal_digits (decimal_value k) = k
      \<and> decimal_value k < 4294967295)"

fun put_property :: "string \<Rightarrow> jsval \<Rightarrow> (string \<times> jsval) list \<Rightarrow> (string \<times> jsval) list" where
  "put_property k v [] = [(k, v)]"
| "put_property k v ((k', v') # kvs) =
     (if k = k' then (k, v) # kvs
      else if is_array_index k \<and> (\<not> is_array_index k' \<or> decimal_value k < decimal_value k')
      then (k, v) # (k', v') # kvs
      else (k', v') # put_property k v kvs)"

definition assign :: "string \<Rightarrow> jsval \<Rightarrow> (string \<times> jsval) list \<Rightarrow> (string \<times> jsval) list" where
  "assign k v kvs = (if k = ''__proto__'' then kvs else put_property k v kvs)"

text \<open>Reading an element of an array: \<^verbatim>\<open>undefined\<close> beyond its end.\<close>

definition element :: "jsval list \<Rightarrow> nat \<Rightarrow> jsval" where
  "element xs i = (if i < length xs then xs ! i else JUndefined)"

text \<open>The loop of lines 2613 to 2621.\<close>

fun match_lines ::
  "(string \<Rightarrow> jsval list option) \<Rightarrow> string list \<Rightarrow> (string \<times> jsval) list \<Rightarrow> (string \<times> jsval) list" where
  "match_lines regExp [] machineEnv = machineEnv"
| "match_lines regExp (line # lines) machineEnv =
     (case regExp line of
        None \<Rightarrow> match_lines regExp lines machineEnv
      | Some m \<Rightarrow>
          if length m > 2
          then match_lines regExp lines (assign (toString (element m 1)) (element m 2) machineEnv)
          else match_lines regExp lines machineEnv)"

text \<open>The callback of \<^verbatim>\<open>result.then\<close> (lines 2596 to 2624), applied to the captured output.
  When no line holds the sentinel, \<^verbatim>\<open>lines.find\<close> gives \<^verbatim>\<open>undefined\<close> and reading its \<^verbatim>\<open>indexOf\<close>
  throws.\<close>

definition parse_env :: "regexp_engine \<Rightarrow> string \<Rightarrow> string \<Rightarrow> error + (string \<times> jsval) list" where
  "parse_env RegExp name out =
     (let lines = split_lines out in
      case find (\<lambda>line. indexOf line DOCKER_MACHINE_NAME > - 1) lines of
        None \<Rightarrow> Inl TypeError
      | Some test \<Rightarrow>
          (let testStartIndex = indexOf test DOCKER_MACHINE_NAME;
               testEndIndex = testStartIndex + int (length DOCKER_MACHINE_NAME);
               nameStartIndex = indexOf test name;
               nameEndIndex = nameStartIndex + int (length name);
               regExpStr =
                 substr test 0 testStartIndex @ ''([a-z_]+)'' @
                 substring test testEndIndex nameStartIndex @ ''(.*?)'' @
                 substr_from test nameEndIndex @ ''$''
           in case RegExp regExpStr of
                None \<Rightarrow> Inl SyntaxError
              | Some regExp \<Rightarrow> Inr (match_lines regExp lines [])))"

text \<open>One run of a child process, as far as the wrapper observes it: the chunks it writes to
  its standard output and the events it emits. The \<^verbatim>\<open>close\<close> event comes after the output
  has ended, so a completion signal that resolves has seen all the chunks.\<close>

record child_run =
  stdout :: "string list"
  events :: "child_event list"

text \<open>\<^verbatim>\<open>DockerMachine.env(name, options)\<close>: the subprocess it starts, and the promise it returns
  once the child has run. The \<^verbatim>\<open>options\<close> argument is not read by the source.\<close>

definition DockerMachine_env ::
  "regexp_engine \<Rightarrow> string \<Rightarrow> child_run \<Rightarrow> procs \<Rightarrow> (string \<times> jsval) list promise \<times> procs" where
  "DockerMachine_env RegExp name r ps =
     (let (child, ps') = spawnDockerMachine [JStr ''env'', JStr name] None ps;
          out = concat (stdout r);
          result = completion ''docker-machine'' (events r)
      in (then_promise result (\<lambda>u. parse_env RegExp name out), ps'))"

text \<open>The host handle: the class \<^verbatim>\<open>DockerMachine\<close> with its two private fields.\<close>

record DockerMachine =
  machine_name :: string
  machine_env :: "(string \<times> jsval) list"

text \<open>\<^verbatim>\<open>DockerMachine.get(name)\<close>: the handle exists only once the query has succeeded.\<close>

definition DockerMachine_get ::
  "regexp_engine \<Rightarrow> string \<Rightarrow> child_run \<Rightarrow> procs \<Rightarrow> DockerMachine promise \<times> procs" where
  "DockerMachine_get RegExp name r ps =
     (let (envPromise, ps') = DockerMachine_env RegExp name r ps
      in (then_promise envPromise (\<lambda>e. Inr \<lparr>machine_name = name, machine_env = e\<rparr>), ps'))"

text \<open>\<^verbatim>\<open>refreshEnv()\<close>: the returned promise, the handle after the promise has settled, and the
  process table.\<close>

definition refreshEnv ::
  "regexp_engine \<Rightarrow> DockerMachine \<Rightarrow> child_run \<Rightarrow> procs
     \<Rightarrow> (string \<times> jsval) list promise \<times> DockerMachine \<times> procs" where
  "refreshEnv RegExp this r ps =
     (let (envPromise, ps') = DockerMachine_env RegExp (machine_name this) r ps
      in case envPromise of
           Resolved e \<Rightarrow> (Resolved e, this\<lparr>machine_env := e\<rparr>, ps')
         | _ \<Rightarrow> (envPromise, this, ps'))"

section \<open>The command facade (\<^verbatim>\<open>DockerCompose\<close>)\<close>

record DockerCompose =
  machine :: "DockerMachine option"
  configPaths :: "string list"

text \<open>\<^verbatim>\<open>_spawn(command, args)\<close>\<close>

definition compose_spawn :: "DockerCompose \<Rightarrow> string \<Rightarrow> jsval list \<Rightarrow> procs \<Rightarrow> nat \<times> procs" where
  "compose_spawn this command args ps =
     (let configArgs = concat (map (\<lambda>confPath. [JStr ''-f'', JStr confPath]) (configPaths this));
          allArgs = configArgs @ [JStr command] @ args;
          e = (case machine this of None \<Rightarrow> None | Some m \<Rightarrow> Some (machine_env m))
      in spawnDockerCompose allArgs e ps)"

text \<open>\<^verbatim>\<open>_serviceCommandSpawn(command, ...args)\<close>. The \<^verbatim>\<open>splice\<close> of line 611 is outside the
  \<^verbatim>\<open>if\<close>/\<^verbatim>\<open>else\<close> of lines 605 to 609: it removes the first argument in both branches, and
  \<open>args'\<close> is the array after it, which line 613 assigns to \<^verbatim>\<open>services\<close>.
  The result is the error thrown before anything was started, or the handle of the child.\<close>

definition serviceCommandSpawn ::
  "DockerCompose \<Rightarrow> string \<Rightarrow> jsval list \<Rightarrow> procs \<Rightarrow> (error + nat) \<times> procs" where
  "serviceCommandSpawn this command args ps =
     (let (opts, services) =
            (if length args > 0 then
               (let opts = (if typeof (hd args) = TString then JObj [] else hd args);
                    args' = drop 1 args
                in (opts, args'))
             else (JObj [], []))
      in case optionsToArgs (for_in opts) None of
           Inl e \<Rightarrow> (Inl e, ps)
         | Inr optArgs \<Rightarrow>
             (let (child, ps') = compose_spawn this command (map JStr optArgs @ services) ps
              in (Inr child, ps')))"

text \<open>The operations that hand their arguments to the dispatcher unchanged.\<close>

datatype service_command =
  Build | Down | Logs | Pause | Ps | Pull | Push | Restart | Start | Stop | Top | Unpause | Up

fun command_name :: "service_command \<Rightarrow> string" where
  "command_name Build = ''build''"
| "command_name Down = ''down''"
| "command_name Logs = ''logs''"
| "command_name Pause = ''pause''"
| "command_name Ps = ''ps''"
| "command_name Pull = ''pull''"
| "command_name Push = ''push''"
| "command_name Restart = ''restart''"
| "command_name Start = ''start''"
| "command_name Stop = ''stop''"
| "command_name Top = ''top''"
| "command_name Unpause = ''unpause''"
| "command_name Up = ''up''"

definition service_operation ::
  "DockerCompose \<Rightarrow> service_command \<Rightarrow> jsval list \<Rightarrow> procs \<Rightarrow> (error + nat) \<times> procs" where
  "service_operation this c args ps = serviceCommandSpawn this (command_name c) args ps"

text \<open>Reading and deleting a property of the options of \<^verbatim>\<open>exec\<close> and \<^verbatim>\<open>run\<close>. Reading a
  property of \<^verbatim>\<open>null\<close> or \<^verbatim>\<open>undefined\<close> throws; any other value that is not an object with
  that property gives \<^verbatim>\<open>undefined\<close>.\<close>

definition get_property :: "jsval \<Rightarrow> string \<Rightarrow> error + jsval" where
  "get_property v k =
     (case v of
        JUndefined \<Rightarrow> Inl TypeError
      | JNull \<Rightarrow> Inl TypeError
      | JObj kvs \<Rightarrow> Inr (case map_of kvs k of None \<Rightarrow> JUndefined | Some x \<Rightarrow> x)
      | _ \<Rightarrow> Inr JUndefined)"

definition delete_property :: "jsval \<Rightarrow> string \<Rightarrow> jsval" where
  "delete_property v k =
     (case v of JObj kvs \<Rightarrow> JObj (filter (\<lambda>(k', x). k' \<noteq> k) kvs) | _ \<Rightarrow> v)"

text \<open>\<^verbatim>\<open>args[i] || ''\<close>\<close>

definition or_empty :: "jsval \<Rightarrow> jsval" where
  "or_empty v = (if truthy v then v else JStr [])"

text \<open>The common body of \<^verbatim>\<open>exec(...args)\<close> and \<^verbatim>\<open>run(...args)\<close>, which differ in the command
  word only. The variable \<^verbatim>\<open>service\<close> is assigned and never read.\<close>

definition exec_or_run ::
  "string \<Rightarrow> DockerCompose \<Rightarrow> jsval list \<Rightarrow> procs \<Rightarrow> (error + nat) \<times> procs" where
  "exec_or_run word this args ps =
     (if length args > 0 then
        (let first_is_string = (typeof (element args 0) = TString);
             opts = (if first_is_string then JObj [] else element args 0);
             service = (if first_is_string then element args 0 else element args 1);
             command = (if first_is_string then or_empty (element args 1)
                        else or_empty (element args 2));
             runArgs = (if first_is_string then drop 2 args else drop 3 args)
         in case get_property opts ''disablePseudoTty'' of
              Inl e \<Rightarrow> (Inl e, ps)
            | Inr dpt \<Rightarrow>
                (let tty = (if truthy dpt then [''-T''] else []);
                     opts' = delete_property opts ''disablePseudoTty''
                 in case optionsToArgs (for_in opts') None of
                      Inl e \<Rightarrow> (Inl e, ps)
                    | Inr encoded \<Rightarrow>
                        (let optArgs = encoded @ tty;
                             (child, ps') =
                               compose_spawn this word (map JStr optArgs @ [command] @ runArgs) ps
                         in (Inr child, ps'))))
      else
        (let (child, ps') = compose_spawn this word [JUndefined] ps in (Inr child, ps')))"

definition exec :: "DockerCompose \<Rightarrow> jsval list \<Rightarrow> procs \<Rightarrow> (error + nat) \<times> procs" where
  "exec this args ps = exec_or_run ''exec'' this args ps"

definition run :: "DockerCompose \<Rightarrow> jsval list \<Rightarrow> procs \<Rightarrow> (error + nat) \<times> procs" where
  "run this args ps = exec_or_run ''run'' this args ps"

text \<open>The operations that encode an options mapping themselves.\<close>

text \<open>\<^verbatim>\<open>bundle(options)\<close> and \<^verbatim>\<open>config(options)\<close> (\<open>bundle\<close> is a word of the proof language,
  hence the longer names).\<close>

definition bundle_options :: "DockerCompose \<Rightarrow> jsval \<Rightarrow> procs \<Rightarrow> (error + nat) \<times> procs" where
  "bundle_options this opts ps =
     (case optionsToArgs (for_in opts) None of
        Inl e \<Rightarrow> (Inl e, ps)
      | Inr optArgs \<Rightarrow>
          (let (child, ps') = compose_spawn this ''bundle'' (map JStr optArgs) ps
           in (Inr child, ps')))"

definition config_options :: "DockerCompose \<Rightarrow> jsval \<Rightarrow> procs \<Rightarrow> (error + nat) \<times> procs" where
  "config_options this opts ps =
     (case optionsToArgs (for_in opts) None of
        Inl e \<Rightarrow> (Inl e, ps)
      | Inr optArgs \<Rightarrow>
          (let (child, ps') = compose_spawn this ''config'' (map JStr optArgs) ps
           in (Inr child, ps')))"

text \<open>\<^verbatim>\<open>key in obj\<close>, which throws on a value that is not an object.\<close>

definition has_property :: "jsval \<Rightarrow> string \<Rightarrow> error + bool" where
  "has_property v k =
     (case v of
        JObj kvs \<Rightarrow> Inr (k \<in> set (map fst kvs))
      | JArr xs \<Rightarrow> Inr (k \<in> set (map string_of_nat [0..<length xs]) \<or> k = ''length'')
      | _ \<Rightarrow> Inl TypeError)"

text \<open>\<^verbatim>\<open>kill(...args)\<close>: the signal is given by the short flag \<open>-s\<close>. Here a first argument
  that is a string stays among the services.\<close>

definition kill :: "DockerCompose \<Rightarrow> jsval list \<Rightarrow> procs \<Rightarrow> (error + nat) \<times> procs" where
  "kill this args ps =
     (if length args > 0 then
        (let first_is_string = (typeof (hd args) = TString);
             opts = (if first_is_string then JObj [] else hd args);
             services = (if first_is_string then args else drop 1 args)
         in case (if first_is_string then Inr False else has_property opts ''signal'') of
              Inl e \<Rightarrow> (Inl e, ps)
            | Inr has_signal \<Rightarrow>
                (case (if has_signal then get_property opts ''signal'' else Inr JUndefined) of
                   Inl e \<Rightarrow> (Inl e, ps)
                 | Inr signal \<Rightarrow>
                     (let special = (if has_signal then [JStr ''-s'', signal] else []);
                          opts' = (if has_signal then delete_property opts ''signal'' else opts)
                      in case optionsToArgs (for_in opts') None of
                           Inl e \<Rightarrow> (Inl e, ps)
                         | Inr encoded \<Rightarrow>
                             (let (child, ps') =
                                    compose_spawn this ''kill''
                                      (map JStr encoded @ special @ services) ps
                              in (Inr child, ps')))))
      else
        (let (child, ps') = compose_spawn this ''kill'' [] ps in (Inr child, ps')))"

text \<open>\<^verbatim>\<open>rm(...args)\<close>: \<^verbatim>\<open>removeVolumes\<close> is given by the short flag \<open>-v\<close>.\<close>

definition rm :: "DockerCompose \<Rightarrow> jsval list \<Rightarrow> procs \<Rightarrow> (error + nat) \<times> procs" where
  "rm this args ps =
     (if length args > 0 then
        (let first_is_string = (typeof (hd args) = TString);
             opts = (if first_is_string then JObj [] else hd args);
             services = (if first_is_string then args else drop 1 args)
         in case (if first_is_string then Inr JUndefined
                  else get_property opts ''removeVolumes'') of
              Inl e \<Rightarrow> (Inl e, ps)
            | Inr removeVolumes \<Rightarrow>
                (let special = (if truthy removeVolumes then [JStr ''-v''] else []);
                     opts' = (if first_is_string then opts
                              else delete_property opts ''removeVolumes'')
                 in case optionsToArgs (for_in opts') None of
                      Inl e \<Rightarrow> (Inl e, ps)
                    | Inr encoded \<Rightarrow>
                        (let (child, ps') =
                               compose_spawn this ''rm'' (map JStr encoded @ special @ services) ps
                         in (Inr child, ps'))))
      else
        (let (child, ps') = compose_spawn this ''rm'' [] ps in (Inr child, ps')))"

text \<open>\<^verbatim>\<open>version(options)\<close>, as far as the subprocess it starts; the text that the returned promise
  carries for \<^verbatim>\<open>short\<close> is left out.\<close>

definition version :: "DockerCompose \<Rightarrow> jsval \<Rightarrow> procs \<Rightarrow> (error + nat) \<times> procs" where
  "version this opts ps =
     serviceCommandSpawn this ''version'' [if truthy opts then opts else JObj []] ps"

text \<open>\<^verbatim>\<open>DockerMachine.create(name, driver, options)\<close>. For the driver \<open>azure\<close> the field
  \<^verbatim>\<open>openPort\<close> is taken out of the options and given by repeated \<open>--open-port\<close> flags. The result
  is the error thrown before anything was started, or the returned promise once the two
  children (of \<^verbatim>\<open>create\<close> and, after it has succeeded, of \<^verbatim>\<open>env\<close>) have run.\<close>

definition open_port_args :: "jsval \<Rightarrow> jsval list" where
  "open_port_args openPort =
     (case openPort of
        JArr ports \<Rightarrow> concat (map (\<lambda>port. [JStr ''--open-port'', port]) ports)
      | _ \<Rightarrow> [JStr ''--open-port'', openPort])"

definition DockerMachine_create ::
  "regexp_engine \<Rightarrow> string \<Rightarrow> string \<Rightarrow> jsval \<Rightarrow> child_run \<Rightarrow> child_run \<Rightarrow> procs
     \<Rightarrow> (error + DockerMachine promise) \<times> procs" where
  "DockerMachine_create RegExp name driver opts r_create r_env ps =
     (case (if driver = ''azure'' then has_property opts ''openPort'' else Inr False) of
        Inl e \<Rightarrow> (Inl e, ps)
      | Inr has_openPort \<Rightarrow>
          (case (if has_openPort then get_property opts ''openPort'' else Inr JUndefined) of
             Inl e \<Rightarrow> (Inl e, ps)
           | Inr openPort \<Rightarrow>
               (let specialOptArgs = (if has_openPort then open_port_args openPort else []);
                    opts' = (if has_openPort then delete_property opts ''openPort'' else opts)
                in case optionsToArgs (for_in opts') (Some (driver @ ''-'')) of
                     Inl e \<Rightarrow> (Inl e, ps)
                   | Inr optArgs \<Rightarrow>
                       (let createArgs =
                              [JStr ''create'', JStr ''--driver'', JStr driver]
                              @ map JStr optArgs @ specialOptArgs @ [JStr name];
                            (child, ps1) = spawnDockerMachine createArgs None ps
                        in case completion ''docker-machine'' (events r_create) of
                             Resolved u \<Rightarrow>
                               (let (p, ps2) = DockerMachine_get RegExp name r_env ps1
                                in (Inr p, ps2))
                           | Rejected e \<Rightarrow> (Inr (Rejected e), ps1)
                           | Pending \<Rightarrow> (Inr Pending, ps1)))))"

section \<open>Notions of the specification\<close>

text \<open>The specification's description of a flag, word for word: a hyphen is inserted before
  each upper-case letter (A to Z) of the key, the whole is put in lower case, and \<open>--\<close> and the
  prefix are put in front.\<close>

definition hyphenate :: "string \<Rightarrow> string" where
  "hyphenate key = concat (map (\<lambda>c. if isUpperAZ c then [CHR ''-'', c] else [c]) key)"

definition spec_flag :: "string \<Rightarrow> string \<Rightarrow> string" where
  "spec_flag prefix key = ''--'' @ prefix @ map toLowerCase_char (hyphenate key)"

text \<open>The specification's condition on a flat mapping that must be refused: an inner key with
  whitespace, a string inner value with whitespace, or a sequence inner value with an element
  that is a string with whitespace or a mapping.\<close>

definition bad_element :: "jsval \<Rightarrow> bool" where
  "bad_element x = (case x of JStr s \<Rightarrow> has_whitespace s | JObj kvs \<Rightarrow> True | _ \<Rightarrow> False)"

definition bad_inner :: "string \<times> jsval \<Rightarrow> bool" where
  "bad_inner kv =
     (has_whitespace (fst kv) \<or>
      (case snd kv of
         JStr s \<Rightarrow> has_whitespace s
       | JArr xs \<Rightarrow> list_ex bad_element xs
       | _ \<Rightarrow> False))"

definition flat_mapping_violation :: "(string \<times> jsval) list \<Rightarrow> bool" where
  "flat_mapping_violation kvs = list_ex bad_inner kvs"

text \<open>The state that a run of a handler ends in.\<close>

fun final :: "'s run \<Rightarrow> 's" where
  "final (Done s) = s"
| "final (Threw e s) = s"
| "final (OutOfFuel s) = s"

text \<open>The line feed, and the example line of the specification's event-decoding property with
  the record it stands for.\<close>

definition LF :: string where
  "LF = [CHR 0x0A]"

definition QUOTE :: string where
  "QUOTE = [CHR 0x22]"

definition example_line :: string where
  "example_line =
     ''{'' @ QUOTE @ ''time'' @ QUOTE @ '':'' @ QUOTE @ ''t'' @ QUOTE @ '','' @
     QUOTE @ ''type'' @ QUOTE @ '':'' @ QUOTE @ ''container'' @ QUOTE @ '','' @
     QUOTE @ ''action'' @ QUOTE @ '':'' @ QUOTE @ ''create'' @ QUOTE @ '','' @
     QUOTE @ ''id'' @ QUOTE @ '':'' @ QUOTE @ ''1'' @ QUOTE @ '','' @
     QUOTE @ ''service'' @ QUOTE @ '':'' @ QUOTE @ ''db'' @ QUOTE @ ''}''"

definition example_event :: jsval where
  "example_event =
     JObj [(''time'', JStr ''t''), (''type'', JStr ''container''), (''action'', JStr ''create''),
           (''id'', JStr ''1''), (''service'', JStr ''db'')]"

text \<open>Instances of the two platform parameters, for evaluating the model on concrete inputs.
  \<open>example_JSON_parse\<close> agrees with \<^verbatim>\<open>JSON.parse\<close> on the example line and on every text that is
  not JSON; \<open>example_RegExp\<close> agrees with the engine on the pattern
  \<^verbatim>\<open>export ([a-z_]+)="(.*?)"$\<close> and the two lines it is used on.\<close>

definition example_JSON_parse :: "string \<Rightarrow> jsval option" where
  "example_JSON_parse s = (if s = example_line then Some example_event else None)"

definition example_RegExp :: regexp_engine where
  "example_RegExp pattern =
     (if pattern = ''export ([a-z_]+)='' @ QUOTE @ ''(.*?)'' @ QUOTE @ ''$''
      then Some (\<lambda>line.
        if line = ''export DOCKER_HOST='' @ QUOTE @ ''tcp://10.0.0.5:2376'' @ QUOTE
        then Some [JStr line, JStr ''DOCKER_HOST'', JStr ''tcp://10.0.0.5:2376'']
        else if line = ''export DOCKER_MACHINE_NAME='' @ QUOTE @ ''test-machine'' @ QUOTE
        then Some [JStr line, JStr ''DOCKER_MACHINE_NAME'', JStr ''test-machine'']
        else None)
      else None)"

text \<open>Two consumers of the line splitter: one for which \<^verbatim>\<open>push\<close> always returns \<^verbatim>\<open>true\<close> (a
  stream whose buffer never fills), and one for which it returns \<^verbatim>\<open>false\<close> at the first unit.\<close>

definition always_continue :: "string list \<Rightarrow> bool" where
  "always_continue units = True"

definition stop_at_once :: "string list \<Rightarrow> bool" where
  "stop_at_once units = False"

text \<open>The three chunks of the specification's line-decoding property, and a line that is not
  JSON.\<close>

definition example_chunks :: "string list" where
  "example_chunks = [''ab'', ''c'' @ LF @ ''de'', ''f'' @ LF]"

definition malformed_line :: string where
  "malformed_line = ''not json''"

section \<open>Properties of the argument encoder\<close>

subsection \<open>Decimal numerals\<close>

lemma of_char_digit:
  "0 \<le> d \<Longrightarrow> d < 10 \<Longrightarrow> (of_char (char_of (48 + d :: int)) :: int) = 48 + d"
  by (simp add: of_char_of)

lemma decimal_digits_digits: "0 \<le> n \<Longrightarrow> c \<in> set (decimal_digits n) \<Longrightarrow> isDigit c"
proof (induction n arbitrary: c rule: decimal_digits.induct)
  case (1 n)
  show ?case
  proof (cases "n < 10")
    case True
    with "1.prems" show ?thesis
      by (subst (asm) decimal_digits.simps) (simp add: isDigit_def of_char_digit)
  next
    case False
    have "0 \<le> n mod 10" "n mod 10 < 10" by simp_all
    then have "isDigit (char_of (48 + n mod 10))"
      unfolding isDigit_def Let_def by (simp only: of_char_digit) simp
    moreover from False have "0 \<le> n div 10" by simp
    ultimately show ?thesis
      using False "1.IH" "1.prems"(2)
      by (subst (asm) decimal_digits.simps) auto
  qed
qed

lemma decimal_value_snoc: "decimal_value (s @ [c]) = 10 * decimal_value s + (of_char c - 48)"
  by (simp add: decimal_value_def)

lemma decimal_value_digits: "0 \<le> n \<Longrightarrow> decimal_value (decimal_digits n) = n"
proof (induction n rule: decimal_digits.induct)
  case (1 n)
  show ?case
  proof (cases "n < 10")
    case True
    with "1.prems" show ?thesis
      by (subst decimal_digits.simps) (simp add: decimal_value_def of_char_digit)
  next
    case False
    have m: "0 \<le> n mod 10" "n mod 10 < 10" by simp_all
    from False have d: "0 \<le> n div 10" by simp
    have "decimal_value (decimal_digits n)
            = 10 * decimal_value (decimal_digits (n div 10)) + n mod 10"
      using False
      by (subst decimal_digits.simps) (simp add: decimal_value_snoc of_char_digit [OF m])
    with False d "1.IH" show ?thesis by simp
  qed
qed

subsection \<open>The encoder on one entry\<close>

lemma join_element_scalar:
  "typeof x = TString \<or> typeof x = TNumber \<Longrightarrow> join_element x = toString x"
  by (cases x) auto

lemma map_join_element_scalar:
  "\<forall>x \<in> set xs. typeof x = TString \<or> typeof x = TNumber \<Longrightarrow>
   map join_element xs = map toString xs"
  by (induction xs) (simp_all add: join_element_scalar del: join_element.simps)

text \<open>
  Claim C1. Encoding a configuration mapping with a single entry gives, by the kind of its
  value: for \<^verbatim>\<open>true\<close> the flag alone; for a number (an integer from \<open>-2^53\<close> to \<open>2^53 - 1\<close>)
  the flag and then its decimal numeral, which is digits only that read back as the number,
  behind a minus sign when the number is negative; for a string the flag and then the value,
  within double quotes exactly when it contains whitespace; for a sequence of strings and
  numbers the flag and then one token, the elements joined by commas with nothing quoted. The
  four examples of the specification are instances.
\<close>

theorem encoder_value_kinds:
  "optionsToArgs [(key, JBool True)] po = Inr [optKey_of (prefix_of po) key]
   \<and> optionsToArgs [(key, JNum n)] po = Inr [optKey_of (prefix_of po) key, number_toString n]
   \<and> - 9007199254740992 \<le> sint n \<and> sint n < 9007199254740992
   \<and> (0 \<le> sint n \<longrightarrow> (\<forall>c \<in> set (number_toString n). isDigit c)
                  \<and> decimal_value (number_toString n) = sint n)
   \<and> (sint n < 0 \<longrightarrow>
        (\<exists>ds. number_toString n = CHR ''-'' # ds \<and> (\<forall>c \<in> set ds. isDigit c)
              \<and> decimal_value ds = - sint n))
   \<and> optionsToArgs [(key, JStr s)] po
       = Inr [optKey_of (prefix_of po) key, if has_whitespace s then QUOTE @ s @ QUOTE else s]
   \<and> ((\<forall>x \<in> set xs. typeof x = TString \<or> typeof x = TNumber) \<longrightarrow>
        optionsToArgs [(key, JArr xs)] po
          = Inr [optKey_of (prefix_of po) key, join '','' (map toString xs)])
   \<and> optionsToArgs [(''testOption'', JBool True)] None = Inr [''--test-option'']
   \<and> optionsToArgs [(''testOption'', JNum 42)] None = Inr [''--test-option'', ''42'']
   \<and> optionsToArgs [(''testOption'', JStr ''a b'')] None
       = Inr [''--test-option'', QUOTE @ ''a b'' @ QUOTE]
   \<and> optionsToArgs [(''testOption'', JArr [JStr ''a'', JStr ''b'', JStr ''c''])] None
       = Inr [''--test-option'', ''a,b,c'']"
proof -
  have bool: "optionsToArgs [(key, JBool True)] po = Inr [optKey_of (prefix_of po) key]"
    by (simp add: optionsToArgs_def)
  have num: "optionsToArgs [(key, JNum n)] po
               = Inr [optKey_of (prefix_of po) key, number_toString n]"
    by (simp add: optionsToArgs_def)
  have lo: "- 9007199254740992 \<le> sint n"
    using sint_ge [of n] by simp
  have hi: "sint n < 9007199254740992"
    using sint_lt [of n] by simp
  have dec: "0 \<le> sint n \<longrightarrow> (\<forall>c \<in> set (number_toString n). isDigit c)
                  \<and> decimal_value (number_toString n) = sint n"
    by (simp add: number_toString_def decimal_numeral_def decimal_digits_digits
          decimal_value_digits)
  have neg: "sint n < 0 \<longrightarrow>
        (\<exists>ds. number_toString n = CHR ''-'' # ds \<and> (\<forall>c \<in> set ds. isDigit c)
              \<and> decimal_value ds = - sint n)"
  proof
    assume "sint n < 0"
    then have "number_toString n = CHR ''-'' # decimal_digits (- sint n)
        \<and> (\<forall>c \<in> set (decimal_digits (- sint n)). isDigit c)
        \<and> decimal_value (decimal_digits (- sint n)) = - sint n"
      using decimal_digits_digits [of "- sint n"] decimal_value_digits [of "- sint n"]
      by (auto simp: number_toString_def decimal_numeral_def)
    then show "\<exists>ds. number_toString n = CHR ''-'' # ds \<and> (\<forall>c \<in> set ds. isDigit c)
              \<and> decimal_value ds = - sint n"
      by blast
  qed
  have str: "optionsToArgs [(key, JStr s)] po
       = Inr [optKey_of (prefix_of po) key, if has_whitespace s then QUOTE @ s @ QUOTE else s]"
    by (simp add: optionsToArgs_def QUOTE_def)
  have arr: "(\<forall>x \<in> set xs. typeof x = TString \<or> typeof x = TNumber) \<longrightarrow>
        optionsToArgs [(key, JArr xs)] po
          = Inr [optKey_of (prefix_of po) key, join '','' (map toString xs)]"
    by (simp add: optionsToArgs_def map_join_element_scalar del: join_element.simps)
  have e1: "optionsToArgs [(''testOption'', JBool True)] None = Inr [''--test-option'']"
    by code_simp
  have e2: "optionsToArgs [(''testOption'', JNum 42)] None = Inr [''--test-option'', ''42'']"
    by code_simp
  have e3: "optionsToArgs [(''testOption'', JStr ''a b'')] None
       = Inr [''--test-option'', QUOTE @ ''a b'' @ QUOTE]"
    by code_simp
  have e4: "optionsToArgs [(''testOption'', JArr [JStr ''a'', JStr ''b'', JStr ''c''])] None
       = Inr [''--test-option'', ''a,b,c'']"
    by code_simp
  from bool num lo hi dec neg str arr e1 e2 e3 e4 show ?thesis by blast
qed

theorem encoder_value_kinds_witness:
  "optionsToArgs [(''volume'', JArr [JStr ''a b'', JNum 7])] (Some ''x-'')
     = Inr [''--x-volume'', ''a b,7'']
   \<and> optionsToArgs [(''volume'', JStr ''ab'')] (Some ''x-'') = Inr [''--x-volume'', ''ab'']
   \<and> optionsToArgs [(''volume'', JNum 9007199254740991)] (Some ''x-'')
     = Inr [''--x-volume'', ''9007199254740991'']
   \<and> decimal_value (number_toString 9007199254740991) = 9007199254740991
   \<and> (\<exists>ds. number_toString (- 5) = CHR ''-'' # ds \<and> (\<forall>c \<in> set ds. isDigit c)
          \<and> decimal_value ds = 5)"
proof -
  have h: "\<forall>x \<in> set [JStr ''a b'', JNum 7]. typeof x = TString \<or> typeof x = TNumber"
    by simp
  have k: "optKey_of (prefix_of (Some ''x-'')) ''volume'' = ''--x-volume''"
    by code_simp
  have j: "join '','' (map toString [JStr ''a b'', JNum 7]) = ''a b,7''"
    by code_simp
  have w: "\<not> has_whitespace ''ab''"
    by code_simp
  have p: "sint (9007199254740991 :: 54 word) = 9007199254740991"
    by simp
  have q: "sint (- 5 :: 54 word) = - 5"
    by simp
  have m: "number_toString 9007199254740991 = ''9007199254740991''"
    by code_simp
  note t = encoder_value_kinds
    [of "''volume''" "Some ''x-''" 9007199254740991 "''ab''" "[JStr ''a b'', JNum 7]"]
  note u = encoder_value_kinds
    [of "''volume''" "Some ''x-''" "- 5" "''ab''" "[JStr ''a b'', JNum 7]"]
  from t h have "optionsToArgs [(''volume'', JArr [JStr ''a b'', JNum 7])] (Some ''x-'')
     = Inr [optKey_of (prefix_of (Some ''x-'')) ''volume'', join '','' (map toString [JStr ''a b'', JNum 7])]"
    by blast
  moreover from t w have "optionsToArgs [(''volume'', JStr ''ab'')] (Some ''x-'')
     = Inr [optKey_of (prefix_of (Some ''x-'')) ''volume'', ''ab'']"
    by simp
  moreover from t have "optionsToArgs [(''volume'', JNum 9007199254740991)] (Some ''x-'')
     = Inr [optKey_of (prefix_of (Some ''x-'')) ''volume'', number_toString 9007199254740991]"
    by blast
  moreover from t p have
    "decimal_value (number_toString 9007199254740991) = 9007199254740991"
    by simp
  moreover from u q have
    "\<exists>ds. number_toString (- 5) = CHR ''-'' # ds \<and> (\<forall>c \<in> set ds. isDigit c)
          \<and> decimal_value ds = 5"
    by simp
  ultimately show ?thesis
    by (simp only: k j m)
qed

subsection \<open>The flag of an entry\<close>

lemma replace_upper_hyphenate: "replace_upper key = hyphenate key"
  by (induction key) (simp_all add: hyphenate_def)

lemma optKey_of_spec_flag: "optKey_of prefix key = spec_flag prefix key"
  by (simp add: optKey_of_def spec_flag_def toLowerCase_def replace_upper_hyphenate)

text \<open>The tokens of an object-valued option: the list built so far, then the flag at every
  even place.\<close>

lemma objectArgs_tokens:
  "objectArgs optKey kvs acc = Inr toks \<Longrightarrow>
   \<exists>te. toks = acc @ te \<and> (\<forall>i < length te. even i \<longrightarrow> te ! i = optKey)"
proof (induction kvs arbitrary: acc)
  case Nil
  then show ?case by simp
next
  case (Cons kv kvs)
  obtain k v where kv: "kv = (k, v)" by (cases kv)
  from Cons.prems kv have
    rest: "objectArgs optKey kvs (acc @ [optKey, k @ ''='' @ toString v]) = Inr toks"
    by (simp split: if_splits option.splits)
  from Cons.IH [OF rest] obtain te where
    te: "toks = (acc @ [optKey, k @ ''='' @ toString v]) @ te"
        "\<forall>i < length te. even i \<longrightarrow> te ! i = optKey"
    by blast
  let ?te = "[optKey, k @ ''='' @ toString v] @ te"
  have "\<forall>i < length ?te. even i \<longrightarrow> ?te ! i = optKey"
  proof (intro allI impI)
    fix i assume i: "i < length ?te" "even i"
    show "?te ! i = optKey"
    proof (cases "i < 2")
      case True
      with i have "i = 0" by (cases i) auto
      then show ?thesis by simp
    next
      case False
      then obtain j where j: "i = Suc (Suc j)" by (metis Suc_lessI less_2_cases_iff not_less_eq old.nat.exhaust)
      with i te(2) show ?thesis by simp
    qed
  qed
  with te(1) show ?case by (intro exI [of _ ?te]) simp
qed

text \<open>The loop only ever appends to the list built so far, so its result on a list of
  entries is the concatenation of its results on the parts.\<close>

lemma objectArgs_acc:
  "objectArgs optKey kvs acc =
     (case objectArgs optKey kvs [] of Inl e \<Rightarrow> Inl e | Inr t \<Rightarrow> Inr (acc @ t))"
proof (induction kvs arbitrary: acc)
  case Nil
  then show ?case by simp
next
  case (Cons kv kvs)
  obtain k v where kv: "kv = (k, v)" by (cases kv)
  show ?case
    unfolding kv
    by (simp add: Cons.IH [of "acc @ _"] Cons.IH [of "[_, _]"] split: sum.splits option.splits)
qed

lemma optionsLoop_Cons:
  "optionsLoop p ((k, v) # opts) acc =
     (case optionsLoop p [(k, v)] acc of Inl e \<Rightarrow> Inl e | Inr t \<Rightarrow> optionsLoop p opts t)"
  by (cases v) (simp_all add: Let_def split: sum.splits)

lemma optionsLoop_single_acc:
  "optionsLoop p [(k, v)] acc =
     (case optionsLoop p [(k, v)] [] of Inl e \<Rightarrow> Inl e | Inr t \<Rightarrow> Inr (acc @ t))"
proof (cases v)
  case (JObj kvs)
  have "objectArgs (optKey_of p k) kvs acc =
     (case objectArgs (optKey_of p k) kvs [] of Inl e \<Rightarrow> Inl e | Inr t \<Rightarrow> Inr (acc @ t))"
    by (rule objectArgs_acc)
  then show ?thesis
    by (simp add: JObj Let_def split: sum.splits)
qed (simp_all add: Let_def)

lemma optionsLoop_acc:
  "optionsLoop p opts acc =
     (case optionsLoop p opts [] of Inl e \<Rightarrow> Inl e | Inr t \<Rightarrow> Inr (acc @ t))"
proof (induction opts arbitrary: acc)
  case Nil
  then show ?case by simp
next
  case (Cons kv opts)
  obtain k v where kv: "kv = (k, v)" by (cases kv)
  show ?case
  proof (cases "optionsLoop p [(k, v)] []")
    case (Inl e)
    then have "optionsLoop p [(k, v)] acc = Inl e"
      by (subst optionsLoop_single_acc) simp
    with Inl show ?thesis
      unfolding kv by (simp only: optionsLoop_Cons [of p k v opts] sum.case)
  next
    case (Inr t1)
    then have 1: "optionsLoop p [(k, v)] acc = Inr (acc @ t1)"
      by (subst optionsLoop_single_acc) simp
    have l: "optionsLoop p ((k, v) # opts) acc = optionsLoop p opts (acc @ t1)"
      by (simp only: optionsLoop_Cons [of p k v opts] 1 sum.case)
    have r: "optionsLoop p ((k, v) # opts) [] = optionsLoop p opts t1"
      by (simp only: optionsLoop_Cons [of p k v opts] Inr sum.case)
    show ?thesis
    proof (cases "optionsLoop p opts []")
      case (Inl e)
      with Cons.IH [of "acc @ t1"] Cons.IH [of t1] show ?thesis
        unfolding kv l r by simp
    next
      case (Inr t2)
      with Cons.IH [of "acc @ t1"] Cons.IH [of t1] show ?thesis
        unfolding kv l r by simp
    qed
  qed
qed

lemma optionsLoop_append:
  "optionsLoop p (o1 @ o2) acc =
     (case optionsLoop p o1 acc of Inl e \<Rightarrow> Inl e | Inr t \<Rightarrow> optionsLoop p o2 t)"
proof (induction o1 arbitrary: acc)
  case Nil
  then show ?case by simp
next
  case (Cons kv o1)
  obtain k v where kv: "kv = (k, v)" by (cases kv)
  show ?case
    by (cases v) (simp_all add: kv Let_def Cons.IH split: sum.splits)
qed

lemma optionsToArgs_append:
  "optionsToArgs (o1 @ o2) po =
     (case optionsToArgs o1 po of
        Inl e \<Rightarrow> Inl e
      | Inr t1 \<Rightarrow> (case optionsToArgs o2 po of Inl e \<Rightarrow> Inl e | Inr t2 \<Rightarrow> Inr (t1 @ t2)))"
proof (cases "optionsLoop (prefix_of po) o1 []")
  case (Inl e)
  then show ?thesis
    by (simp add: optionsToArgs_def optionsLoop_append)
next
  case (Inr t1)
  have "optionsLoop (prefix_of po) o2 t1 =
     (case optionsLoop (prefix_of po) o2 [] of Inl e \<Rightarrow> Inl e | Inr t \<Rightarrow> Inr (t1 @ t))"
    by (rule optionsLoop_acc)
  with Inr show ?thesis
    by (simp add: optionsToArgs_def optionsLoop_append)
qed

lemma entry_tokens:
  "optionsToArgs [(key, v)] po = Inr te \<Longrightarrow>
   \<forall>i < length te. even i \<longrightarrow> te ! i = optKey_of (prefix_of po) key"
proof (cases v)
  case (JObj kvs)
  assume "optionsToArgs [(key, v)] po = Inr te"
  with JObj have "objectArgs (optKey_of (prefix_of po) key) kvs [] = Inr te"
    by (simp add: optionsToArgs_def Let_def split: sum.splits)
  from objectArgs_tokens [OF this] show ?thesis by simp
next
  case (JBool b)
  assume "optionsToArgs [(key, v)] po = Inr te"
  with JBool show ?thesis
    by (cases b) (auto simp: optionsToArgs_def Let_def)
qed (auto simp: optionsToArgs_def Let_def less_Suc_eq)

text \<open>
  Claim C3. The flag of an entry is the key with a hyphen inserted before each upper-case
  letter, put in lower case, behind \<open>--\<close> and the prefix: the scan of the source computes
  exactly that, and for every entry of every mapping that the encoder accepts, the tokens of
  the mapping are those of the entries before it, its own and those of the entries after it,
  its own tokens having that flag at every even place (a flag alone, a flag and a value, or one
  flag and value for each inner key). With the prefix \<open>test-prefix-\<close> the key \<open>testNumber\<close> has
  the flag \<open>--test-prefix-test-number\<close>.
\<close>

theorem flag_derivation:
  "optKey_of prefix key = spec_flag prefix key
   \<and> (optionsToArgs (before @ [(key, v)] @ after) po = Inr toks \<longrightarrow>
       (\<exists>tb te ta.
          optionsToArgs before po = Inr tb \<and>
          optionsToArgs [(key, v)] po = Inr te \<and>
          optionsToArgs after po = Inr ta \<and>
          toks = tb @ te @ ta \<and>
          (\<forall>i < length te. even i \<longrightarrow> te ! i = spec_flag (prefix_of po) key)))
   \<and> spec_flag ''test-prefix-'' ''testNumber'' = ''--test-prefix-test-number''
   \<and> optionsToArgs [(''testNumber'', JNum 10)] (Some ''test-prefix-'')
       = Inr [''--test-prefix-test-number'', ''10'']"
proof -
  have split: "optionsToArgs (before @ [(key, v)] @ after) po = Inr toks \<longrightarrow>
       (\<exists>tb te ta.
          optionsToArgs before po = Inr tb \<and>
          optionsToArgs [(key, v)] po = Inr te \<and>
          optionsToArgs after po = Inr ta \<and>
          toks = tb @ te @ ta \<and>
          (\<forall>i < length te. even i \<longrightarrow> te ! i = spec_flag (prefix_of po) key))"
  proof
    assume a: "optionsToArgs (before @ [(key, v)] @ after) po = Inr toks"
    then obtain tb tr where
      q: "optionsToArgs before po = Inr tb" "optionsToArgs ([(key, v)] @ after) po = Inr tr"
         "toks = tb @ tr"
      by (auto simp: optionsToArgs_append [of before] split: sum.splits)
    have "optionsToArgs ([(key, v)] @ after) po =
       (case optionsToArgs [(key, v)] po of
          Inl e \<Rightarrow> Inl e
        | Inr t1 \<Rightarrow> (case optionsToArgs after po of Inl e \<Rightarrow> Inl e | Inr t2 \<Rightarrow> Inr (t1 @ t2)))"
      by (rule optionsToArgs_append)
    with q(2) obtain te ta where
      q': "optionsToArgs [(key, v)] po = Inr te" "optionsToArgs after po = Inr ta"
          "tr = te @ ta"
      by (auto split: sum.splits)
    from q q' have
      p: "optionsToArgs before po = Inr tb" "optionsToArgs [(key, v)] po = Inr te"
         "optionsToArgs after po = Inr ta" "toks = tb @ te @ ta"
      by simp_all
    from entry_tokens [OF p(2)] p show
      "\<exists>tb te ta.
          optionsToArgs before po = Inr tb \<and>
          optionsToArgs [(key, v)] po = Inr te \<and>
          optionsToArgs after po = Inr ta \<and>
          toks = tb @ te @ ta \<and>
          (\<forall>i < length te. even i \<longrightarrow> te ! i = spec_flag (prefix_of po) key)"
      by (auto simp: optKey_of_spec_flag)
  qed
  have e1: "spec_flag ''test-prefix-'' ''testNumber'' = ''--test-prefix-test-number''"
    by code_simp
  have e2: "optionsToArgs [(''testNumber'', JNum 10)] (Some ''test-prefix-'')
       = Inr [''--test-prefix-test-number'', ''10'']"
    by code_simp
  from optKey_of_spec_flag split e1 e2 show ?thesis by blast
qed

theorem flag_derivation_witness:
  "optionsToArgs
     ([(''detach'', JBool True)] @ [(''buildArg'', JObj [(''A'', JStr ''1''), (''B'', JNum 2)])]
        @ [(''testNumber'', JNum 10)])
     (Some ''p-'')
     = Inr [''--p-detach'', ''--p-build-arg'', ''A=1'', ''--p-build-arg'', ''B=2'',
            ''--p-test-number'', ''10'']
   \<and> (\<exists>tb te ta.
          optionsToArgs [(''detach'', JBool True)] (Some ''p-'') = Inr tb \<and>
          optionsToArgs [(''buildArg'', JObj [(''A'', JStr ''1''), (''B'', JNum 2)])] (Some ''p-'')
            = Inr te \<and>
          optionsToArgs [(''testNumber'', JNum 10)] (Some ''p-'') = Inr ta \<and>
          [''--p-detach'', ''--p-build-arg'', ''A=1'', ''--p-build-arg'', ''B=2'',
            ''--p-test-number'', ''10''] = tb @ te @ ta \<and>
          (\<forall>i < length te. even i \<longrightarrow> te ! i = spec_flag (prefix_of (Some ''p-'')) ''buildArg''))"
proof -
  have h: "optionsToArgs
     ([(''detach'', JBool True)] @ [(''buildArg'', JObj [(''A'', JStr ''1''), (''B'', JNum 2)])]
        @ [(''testNumber'', JNum 10)])
     (Some ''p-'')
     = Inr [''--p-detach'', ''--p-build-arg'', ''A=1'', ''--p-build-arg'', ''B=2'',
            ''--p-test-number'', ''10'']"
    by code_simp
  from flag_derivation
         [where before = "[(''detach'', JBool True)]" and key = "''buildArg''"
            and v = "JObj [(''A'', JStr ''1''), (''B'', JNum 2)]"
            and after = "[(''testNumber'', JNum 10)]" and po = "Some ''p-''"] h
  show ?thesis by blast
qed

subsection \<open>Refused flat mappings\<close>

lemma check_element_error:
  "check_element x = Some e \<Longrightarrow> \<exists>msg. e = OptionsParseError msg"
  by (cases x) (auto simp: check_element_def split: if_splits)

lemma check_element_bad: "bad_element x \<Longrightarrow> check_element x \<noteq> None"
  by (cases x) (auto simp: check_element_def bad_element_def)

lemma forEach_check_error:
  "forEach_check xs = Some e \<Longrightarrow> \<exists>msg. e = OptionsParseError msg"
  by (induction xs) (auto split: option.splits dest: check_element_error)

lemma forEach_check_bad: "list_ex bad_element xs \<Longrightarrow> forEach_check xs \<noteq> None"
  by (induction xs) (auto split: option.splits dest: check_element_bad)

lemma check_value_error:
  "check_value v = Some e \<Longrightarrow> \<exists>msg. e = OptionsParseError msg"
  by (cases v) (auto simp: check_value_def split: if_splits dest: forEach_check_error)

lemma objectArgs_error:
  "objectArgs optKey kvs acc = Inl e \<Longrightarrow> \<exists>msg. e = OptionsParseError msg"
proof (induction kvs arbitrary: acc)
  case Nil
  then show ?case by simp
next
  case (Cons kv kvs)
  obtain k v where kv: "kv = (k, v)" by (cases kv)
  from Cons.prems show ?case
    unfolding kv
    by (auto split: if_splits option.splits dest: check_value_error Cons.IH)
qed

lemma bad_inner_refused:
  "bad_inner (k, v) \<Longrightarrow> has_whitespace k \<or> check_value v \<noteq> None"
  by (cases v) (auto simp: bad_inner_def check_value_def dest: forEach_check_bad)

lemma objectArgs_violation:
  "flat_mapping_violation kvs \<Longrightarrow> \<exists>e. objectArgs optKey kvs acc = Inl e"
  unfolding flat_mapping_violation_def
proof (induction kvs arbitrary: acc)
  case Nil
  then show ?case by simp
next
  case (Cons kv kvs)
  obtain k v where kv: "kv = (k, v)" by (cases kv)
  show ?case
  proof (cases "has_whitespace k \<or> check_value v \<noteq> None")
    case True
    then show ?thesis
      unfolding kv by (auto split: option.splits)
  next
    case False
    with bad_inner_refused [of k v] have "\<not> bad_inner (k, v)" by blast
    with Cons.prems kv have "list_ex bad_inner kvs" by simp
    from Cons.IH [OF this] False show ?thesis
      unfolding kv by (auto split: option.splits)
  qed
qed

lemma optionsLoop_error:
  "optionsLoop p opts acc = Inl e \<Longrightarrow> \<exists>msg. e = OptionsParseError msg"
proof (induction opts arbitrary: acc)
  case Nil
  then show ?case by simp
next
  case (Cons kv opts)
  obtain k v where kv: "kv = (k, v)" by (cases kv)
  from Cons.prems show ?case
    unfolding kv
    by (cases v) (auto simp: Let_def split: sum.splits dest: Cons.IH objectArgs_error)
qed

lemma optionsLoop_violation:
  "(key, JObj kvs) \<in> set opts \<Longrightarrow> flat_mapping_violation kvs \<Longrightarrow>
   \<exists>e. optionsLoop p opts acc = Inl e"
proof (induction opts arbitrary: acc)
  case Nil
  then show ?case by simp
next
  case (Cons kv opts)
  obtain k v where kv: "kv = (k, v)" by (cases kv)
  show ?case
  proof (cases "kv = (key, JObj kvs)")
    case True
    from objectArgs_violation [OF Cons.prems(2)] obtain e where
      "objectArgs (optKey_of p key) kvs acc = Inl e" by blast
    with True show ?thesis by (simp add: Let_def)
  next
    case False
    with Cons.prems have "(key, JObj kvs) \<in> set opts" by simp
    from Cons.IH [OF this Cons.prems(2)] show ?thesis
      unfolding kv
      by (cases v) (auto simp: Let_def split: sum.splits)
  qed
qed

lemma optionsToArgs_violation:
  assumes "(key, JObj kvs) \<in> set opts" and "flat_mapping_violation kvs"
  shows "\<exists>msg. optionsToArgs opts po = Inl (OptionsParseError msg)"
proof -
  from optionsLoop_violation [OF assms] obtain e where
    e: "optionsLoop (prefix_of po) opts [] = Inl e" by blast
  from optionsLoop_error [OF e] e show ?thesis
    by (auto simp: optionsToArgs_def)
qed

lemma serviceCommandSpawn_refused:
  "optionsToArgs opts None = Inl e \<Longrightarrow>
   serviceCommandSpawn this command (JObj opts # services) ps = (Inl e, ps)"
  by (simp add: serviceCommandSpawn_def for_in_def)

lemma exec_or_run_refused:
  "optionsToArgs (filter (\<lambda>(k', x). k' \<noteq> ''disablePseudoTty'') opts) None = Inl e \<Longrightarrow>
   exec_or_run word this (JObj opts # rest) ps = (Inl e, ps)"
  by (simp add: exec_or_run_def element_def get_property_def delete_property_def for_in_def
        Let_def)

lemma violation_kept:
  "(key, JObj kvs) \<in> set opts \<Longrightarrow> key \<noteq> k \<Longrightarrow>
   (key, JObj kvs) \<in> set (filter (\<lambda>(k', x). k' \<noteq> k) opts)"
  by simp

lemma kill_refused:
  assumes "(key, JObj kvs) \<in> set opts" and "flat_mapping_violation kvs" and "key \<noteq> ''signal''"
  shows "\<exists>msg. kill this (JObj opts # services) ps = (Inl (OptionsParseError msg), ps)"
proof -
  from optionsToArgs_violation [OF assms(1,2), of None] obtain m1 where
    m1: "optionsToArgs opts None = Inl (OptionsParseError m1)" by blast
  from optionsToArgs_violation [OF violation_kept [OF assms(1,3)] assms(2), of None]
  obtain m2 where
    m2: "optionsToArgs (filter (\<lambda>(k', x). k' \<noteq> ''signal'') opts) None
           = Inl (OptionsParseError m2)" by blast
  show ?thesis
    by (cases "''signal'' \<in> set (map fst opts)")
       (simp_all add: kill_def has_property_def get_property_def delete_property_def for_in_def
          m1 m2 Let_def)
qed

lemma rm_refused:
  assumes "(key, JObj kvs) \<in> set opts" and "flat_mapping_violation kvs"
    and "key \<noteq> ''removeVolumes''"
  shows "\<exists>msg. rm this (JObj opts # services) ps = (Inl (OptionsParseError msg), ps)"
proof -
  from optionsToArgs_violation [OF violation_kept [OF assms(1,3)] assms(2), of None]
  obtain m where
    "optionsToArgs (filter (\<lambda>(k', x). k' \<noteq> ''removeVolumes'') opts) None
       = Inl (OptionsParseError m)" by blast
  then show ?thesis
    by (simp add: rm_def get_property_def delete_property_def for_in_def Let_def)
qed

lemma create_refused:
  assumes "(key, JObj kvs) \<in> set opts" and "flat_mapping_violation kvs"
    and "driver = ''azure'' \<longrightarrow> key \<noteq> ''openPort''"
  shows "\<exists>msg. DockerMachine_create RegExp name driver (JObj opts) r_create r_env ps
           = (Inl (OptionsParseError msg), ps)"
proof -
  from optionsToArgs_violation [OF assms(1,2), of "Some (driver @ ''-'')"] obtain m1 where
    m1: "optionsToArgs opts (Some (driver @ ''-'')) = Inl (OptionsParseError m1)" by blast
  show ?thesis
  proof (cases "driver = ''azure'' \<and> ''openPort'' \<in> set (map fst opts)")
    case False
    with m1 show ?thesis
      by (auto simp: DockerMachine_create_def has_property_def for_in_def Let_def)
  next
    case True
    with assms(3) have "key \<noteq> ''openPort''" by blast
    from optionsToArgs_violation [OF violation_kept [OF assms(1) this] assms(2),
           of "Some (driver @ ''-'')"]
    obtain m2 where
      "optionsToArgs (filter (\<lambda>(k', x). k' \<noteq> ''openPort'') opts) (Some (driver @ ''-''))
         = Inl (OptionsParseError m2)" by blast
    with True show ?thesis
      by (simp add: DockerMachine_create_def has_property_def get_property_def
            delete_property_def for_in_def Let_def)
  qed
qed

text \<open>
  Claim C2. When a configuration mapping has an entry whose value is a flat mapping with an
  inner key containing whitespace, a string inner value containing whitespace, or a sequence
  inner value with an element that is a string containing whitespace or a mapping, the encoder
  throws its validation error: it returns no token list. Every operation that is called with
  that mapping throws the same kind of error and leaves the process table as it was, so no
  subprocess is started: the operations of the generic dispatcher, \<^verbatim>\<open>bundle\<close>, \<^verbatim>\<open>config\<close> and
  \<^verbatim>\<open>version\<close>, and \<^verbatim>\<open>exec\<close>, \<^verbatim>\<open>run\<close>, \<^verbatim>\<open>kill\<close>, \<^verbatim>\<open>rm\<close> and \<^verbatim>\<open>create\<close>, which take one field
  out of the mapping before they encode it (\<^verbatim>\<open>disablePseudoTty\<close>, \<^verbatim>\<open>signal\<close>, \<^verbatim>\<open>removeVolumes\<close>, and
  \<^verbatim>\<open>openPort\<close> for the driver \<open>azure\<close>), so that the entry must not be that field.
\<close>

theorem flat_mapping_violation_raises:
  assumes "(key, JObj kvs) \<in> set opts" and "flat_mapping_violation kvs"
  shows "(\<exists>msg. optionsToArgs opts po = Inl (OptionsParseError msg))
    \<and> (\<exists>msg. service_operation this c (JObj opts # services) ps
                = (Inl (OptionsParseError msg), ps))
    \<and> (\<exists>msg. bundle_options this (JObj opts) ps = (Inl (OptionsParseError msg), ps))
    \<and> (\<exists>msg. config_options this (JObj opts) ps = (Inl (OptionsParseError msg), ps))
    \<and> (\<exists>msg. version this (JObj opts) ps = (Inl (OptionsParseError msg), ps))
    \<and> (key \<noteq> ''disablePseudoTty'' \<longrightarrow>
         (\<exists>msg. exec this (JObj opts # rest) ps = (Inl (OptionsParseError msg), ps)) \<and>
         (\<exists>msg. run this (JObj opts # rest) ps = (Inl (OptionsParseError msg), ps)))
    \<and> (key \<noteq> ''signal'' \<longrightarrow>
         (\<exists>msg. kill this (JObj opts # services) ps = (Inl (OptionsParseError msg), ps)))
    \<and> (key \<noteq> ''removeVolumes'' \<longrightarrow>
         (\<exists>msg. rm this (JObj opts # services) ps = (Inl (OptionsParseError msg), ps)))
    \<and> ((driver = ''azure'' \<longrightarrow> key \<noteq> ''openPort'') \<longrightarrow>
         (\<exists>msg. DockerMachine_create RegExp name driver (JObj opts) r_create r_env ps
                  = (Inl (OptionsParseError msg), ps)))"
proof -
  from optionsToArgs_violation [OF assms, of None] obtain msg where
    m: "optionsToArgs opts None = Inl (OptionsParseError msg)" by blast
  have enc: "\<exists>msg. optionsToArgs opts po = Inl (OptionsParseError msg)"
    by (rule optionsToArgs_violation [OF assms])
  have disp: "\<exists>msg. service_operation this c (JObj opts # services) ps
                = (Inl (OptionsParseError msg), ps)"
    using m by (auto simp: service_operation_def dest: serviceCommandSpawn_refused)
  have bun: "\<exists>msg. bundle_options this (JObj opts) ps = (Inl (OptionsParseError msg), ps)"
    using m by (simp add: bundle_options_def for_in_def)
  have con: "\<exists>msg. config_options this (JObj opts) ps = (Inl (OptionsParseError msg), ps)"
    using m by (simp add: config_options_def for_in_def)
  have ver: "\<exists>msg. version this (JObj opts) ps = (Inl (OptionsParseError msg), ps)"
    using m by (auto simp: version_def dest: serviceCommandSpawn_refused)
  have ex: "key \<noteq> ''disablePseudoTty'' \<longrightarrow>
         (\<exists>msg. exec this (JObj opts # rest) ps = (Inl (OptionsParseError msg), ps)) \<and>
         (\<exists>msg. run this (JObj opts # rest) ps = (Inl (OptionsParseError msg), ps))"
  proof
    assume k: "key \<noteq> ''disablePseudoTty''"
    from optionsToArgs_violation [OF violation_kept [OF assms(1) k] assms(2), of None]
    obtain m' where
      "optionsToArgs (filter (\<lambda>(k', x). k' \<noteq> ''disablePseudoTty'') opts) None
          = Inl (OptionsParseError m')" by blast
    from exec_or_run_refused [OF this]
    show "(\<exists>msg. exec this (JObj opts # rest) ps = (Inl (OptionsParseError msg), ps)) \<and>
          (\<exists>msg. run this (JObj opts # rest) ps = (Inl (OptionsParseError msg), ps))"
      by (auto simp: exec_def run_def)
  qed
  have ki: "key \<noteq> ''signal'' \<longrightarrow>
         (\<exists>msg. kill this (JObj opts # services) ps = (Inl (OptionsParseError msg), ps))"
    using kill_refused [OF assms] by blast
  have re: "key \<noteq> ''removeVolumes'' \<longrightarrow>
         (\<exists>msg. rm this (JObj opts # services) ps = (Inl (OptionsParseError msg), ps))"
    using rm_refused [OF assms] by blast
  have cr: "(driver = ''azure'' \<longrightarrow> key \<noteq> ''openPort'') \<longrightarrow>
         (\<exists>msg. DockerMachine_create RegExp name driver (JObj opts) r_create r_env ps
                  = (Inl (OptionsParseError msg), ps))"
    using create_refused [OF assms] by blast
  from enc disp bun con ver ex ki re cr show ?thesis by blast
qed

theorem flat_mapping_violation_raises_witness:
  "optionsToArgs
     [(''pull'', JBool True), (''buildArg'', JObj [(''OK'', JNum 1), (''KEY KEY'', JStr ''VALUE'')])]
     None
     = Inl (OptionsParseError
         ''Options object argument key may not contain whitespace characters'')
   \<and> (\<exists>msg. service_operation \<lparr>machine = None, configPaths = [''a.yml'']\<rparr> Build
        [JObj [(''pull'', JBool True),
               (''buildArg'', JObj [(''OK'', JNum 1), (''KEY KEY'', JStr ''VALUE'')])],
         JStr ''db''] []
        = (Inl (OptionsParseError msg), []))
   \<and> (\<exists>msg. exec \<lparr>machine = None, configPaths = [''a.yml'']\<rparr>
        [JObj [(''pull'', JBool True),
               (''buildArg'', JObj [(''OK'', JNum 1), (''KEY KEY'', JStr ''VALUE'')])],
         JStr ''db'', JStr ''ls''] []
        = (Inl (OptionsParseError msg), []))
   \<and> (\<exists>msg. kill \<lparr>machine = None, configPaths = [''a.yml'']\<rparr>
        [JObj [(''pull'', JBool True),
               (''buildArg'', JObj [(''OK'', JNum 1), (''KEY KEY'', JStr ''VALUE'')])],
         JStr ''db''] []
        = (Inl (OptionsParseError msg), []))"
proof -
  let ?kvs = "[(''OK'', JNum 1), (''KEY KEY'', JStr ''VALUE'')]"
  let ?opts = "[(''pull'', JBool True), (''buildArg'', JObj ?kvs)]"
  have m: "(''buildArg'', JObj ?kvs) \<in> set ?opts"
    by simp
  have v: "flat_mapping_violation ?kvs"
    by code_simp
  have k: "''buildArg'' \<noteq> ''disablePseudoTty''" "''buildArg'' \<noteq> ''signal''"
    by simp_all
  have e: "optionsToArgs ?opts None
     = Inl (OptionsParseError
         ''Options object argument key may not contain whitespace characters'')"
    by code_simp
  from flat_mapping_violation_raises
         [OF m v, of None "\<lparr>machine = None, configPaths = [''a.yml'']\<rparr>" Build "[JStr ''db'']" "[]"
            "[JStr ''db'', JStr ''ls'']"] k e
  show ?thesis by blast
qed

section \<open>Properties of the command facade\<close>

lemma compose_spawn_request:
  "compose_spawn this command args ps =
     (length ps,
      ps @ [\<lparr>program = ''docker-compose'',
             argv = concat (map (\<lambda>confPath. [JStr ''-f'', JStr confPath]) (configPaths this))
                    @ [JStr command] @ args,
             options = \<lparr>env = map_option machine_env (machine this), windowsHide = True\<rparr>\<rparr>])"
  by (simp add: compose_spawn_def spawnDockerCompose_def spawnDockerToolbox_def
        split: option.splits)

lemma optionsToArgs_empty: "optionsToArgs [] po = Inr []"
  by (simp add: optionsToArgs_def)

text \<open>
  Claim C9. An operation of the generic dispatcher called with service names only starts
  \<^verbatim>\<open>docker-compose\<close> with the configuration flags, the command word and the second and later
  names: the first name is not forwarded. Called with a leading options mapping that the
  encoder accepts, it starts it with the flags, the command word, the encoded options and all
  the names that follow the mapping.
\<close>

theorem dispatcher_drops_first_service:
  "service_operation this c (map JStr (name # names)) ps =
     (Inr (length ps),
      ps @ [\<lparr>program = ''docker-compose'',
             argv = concat (map (\<lambda>confPath. [JStr ''-f'', JStr confPath]) (configPaths this))
                    @ [JStr (command_name c)] @ map JStr names,
             options = \<lparr>env = map_option machine_env (machine this), windowsHide = True\<rparr>\<rparr>])
   \<and> (optionsToArgs opts None = Inr optArgs \<longrightarrow>
        service_operation this c (JObj opts # map JStr trailing) ps =
          (Inr (length ps),
           ps @ [\<lparr>program = ''docker-compose'',
                  argv = concat (map (\<lambda>confPath. [JStr ''-f'', JStr confPath]) (configPaths this))
                         @ [JStr (command_name c)] @ map JStr optArgs @ map JStr trailing,
                  options = \<lparr>env = map_option machine_env (machine this),
                             windowsHide = True\<rparr>\<rparr>]))"
  by (simp add: service_operation_def serviceCommandSpawn_def for_in_def optionsToArgs_empty
        compose_spawn_request)

theorem dispatcher_drops_first_service_witness:
  "service_operation \<lparr>machine = None, configPaths = [''a.yml'']\<rparr> Build
     [JStr ''db'', JStr ''client''] []
     = (Inr 0,
        [\<lparr>program = ''docker-compose'',
          argv = [JStr ''-f'', JStr ''a.yml'', JStr ''build'', JStr ''client''],
          options = \<lparr>env = None, windowsHide = True\<rparr>\<rparr>])
   \<and> service_operation \<lparr>machine = None, configPaths = [''a.yml'']\<rparr> Build
     [JObj [(''pull'', JBool True)], JStr ''db'', JStr ''client''] []
     = (Inr 0,
        [\<lparr>program = ''docker-compose'',
          argv = [JStr ''-f'', JStr ''a.yml'', JStr ''build'', JStr ''--pull'', JStr ''db'',
                  JStr ''client''],
          options = \<lparr>env = None, windowsHide = True\<rparr>\<rparr>])"
proof -
  have e: "optionsToArgs [(''pull'', JBool True)] None = Inr [''--pull'']"
    by code_simp
  from dispatcher_drops_first_service
         [of "\<lparr>machine = None, configPaths = [''a.yml'']\<rparr>" Build "''db''" "[''client'']" "[]"
             "[(''pull'', JBool True)]" "[''--pull'']" "[''db'', ''client'']"] e
  show ?thesis by simp
qed

lemma exec_or_run_string_first:
  "exec_or_run word this (JStr service # rest) ps =
     (Inr (length ps),
      ps @ [\<lparr>program = ''docker-compose'',
             argv = concat (map (\<lambda>confPath. [JStr ''-f'', JStr confPath]) (configPaths this))
                    @ [JStr word] @ [or_empty (element rest 0)] @ drop 1 rest,
             options = \<lparr>env = map_option machine_env (machine this), windowsHide = True\<rparr>\<rparr>])"
  by (simp add: exec_or_run_def element_def get_property_def delete_property_def for_in_def
        optionsToArgs_empty compose_spawn_request Let_def)

lemma exec_or_run_options_first:
  "optionsToArgs (filter (\<lambda>(k', x). k' \<noteq> ''disablePseudoTty'') opts) None = Inr encoded \<Longrightarrow>
   exec_or_run word this (JObj opts # service # rest) ps =
     (Inr (length ps),
      ps @ [\<lparr>program = ''docker-compose'',
             argv = concat (map (\<lambda>confPath. [JStr ''-f'', JStr confPath]) (configPaths this))
                    @ [JStr word] @ map JStr encoded
                    @ (if truthy (case map_of opts ''disablePseudoTty'' of
                                    None \<Rightarrow> JUndefined | Some x \<Rightarrow> x)
                       then [JStr ''-T''] else [])
                    @ [or_empty (element rest 0)] @ drop 1 rest,
             options = \<lparr>env = map_option machine_env (machine this), windowsHide = True\<rparr>\<rparr>])"
  by (simp add: exec_or_run_def element_def get_property_def delete_property_def for_in_def
        compose_spawn_request Let_def)

text \<open>
  Claim C10. \<^verbatim>\<open>exec\<close> and \<^verbatim>\<open>run\<close>, called with a service name first or with an options mapping
  and then a service name, start \<^verbatim>\<open>docker-compose\<close> with a vector made of the configuration
  flags, the command word, the encoded options (without \<^verbatim>\<open>disablePseudoTty\<close>), \<open>-T\<close> when
  \<^verbatim>\<open>disablePseudoTty\<close> is set, the command (the empty string when it is missing) and the further
  arguments. The service name takes no part in it.
\<close>

theorem exec_run_omit_service:
  "exec this (JStr service # rest) ps =
     (Inr (length ps),
      ps @ [\<lparr>program = ''docker-compose'',
             argv = concat (map (\<lambda>confPath. [JStr ''-f'', JStr confPath]) (configPaths this))
                    @ [JStr ''exec''] @ [or_empty (element rest 0)] @ drop 1 rest,
             options = \<lparr>env = map_option machine_env (machine this), windowsHide = True\<rparr>\<rparr>])
   \<and> run this (JStr service # rest) ps =
     (Inr (length ps),
      ps @ [\<lparr>program = ''docker-compose'',
             argv = concat (map (\<lambda>confPath. [JStr ''-f'', JStr confPath]) (configPaths this))
                    @ [JStr ''run''] @ [or_empty (element rest 0)] @ drop 1 rest,
             options = \<lparr>env = map_option machine_env (machine this), windowsHide = True\<rparr>\<rparr>])
   \<and> (optionsToArgs (filter (\<lambda>(k', x). k' \<noteq> ''disablePseudoTty'') opts) None = Inr encoded \<longrightarrow>
        exec this (JObj opts # any_service # rest) ps =
          (Inr (length ps),
           ps @ [\<lparr>program = ''docker-compose'',
                  argv = concat (map (\<lambda>confPath. [JStr ''-f'', JStr confPath]) (configPaths this))
                         @ [JStr ''exec''] @ map JStr encoded
                         @ (if truthy (case map_of opts ''disablePseudoTty'' of
                                         None \<Rightarrow> JUndefined | Some x \<Rightarrow> x)
                            then [JStr ''-T''] else [])
                         @ [or_empty (element rest 0)] @ drop 1 rest,
                  options = \<lparr>env = map_option machine_env (machine this),
                             windowsHide = True\<rparr>\<rparr>])
        \<and> run this (JObj opts # any_service # rest) ps =
          (Inr (length ps),
           ps @ [\<lparr>program = ''docker-compose'',
                  argv = concat (map (\<lambda>confPath. [JStr ''-f'', JStr confPath]) (configPaths this))
                         @ [JStr ''run''] @ map JStr encoded
                         @ (if truthy (case map_of opts ''disablePseudoTty'' of
                                         None \<Rightarrow> JUndefined | Some x \<Rightarrow> x)
                            then [JStr ''-T''] else [])
                         @ [or_empty (element rest 0)] @ drop 1 rest,
                  options = \<lparr>env = map_option machine_env (machine this),
                             windowsHide = True\<rparr>\<rparr>]))"
  unfolding exec_def run_def
  using exec_or_run_options_first [of opts encoded]
  by (simp only: exec_or_run_string_first) blast

theorem exec_run_omit_service_witness:
  "exec \<lparr>machine = None, configPaths = []\<rparr>
     [JObj [(''disablePseudoTty'', JBool True), (''user'', JStr ''root'')],
      JStr ''db'', JStr ''ls'', JArr [JStr ''-l'']] []
     = (Inr 0,
        [\<lparr>program = ''docker-compose'',
          argv = [JStr ''exec'', JStr ''--user'', JStr ''root'', JStr ''-T'', JStr ''ls'',
                  JArr [JStr ''-l'']],
          options = \<lparr>env = None, windowsHide = True\<rparr>\<rparr>])
   \<and> run \<lparr>machine = None, configPaths = []\<rparr> [JStr ''db'', JStr ''ls''] []
     = (Inr 0,
        [\<lparr>program = ''docker-compose'',
          argv = [JStr ''run'', JStr ''ls''],
          options = \<lparr>env = None, windowsHide = True\<rparr>\<rparr>])"
proof -
  let ?opts = "[(''disablePseudoTty'', JBool True), (''user'', JStr ''root'')]"
  have e: "optionsToArgs (filter (\<lambda>(k', x). k' \<noteq> ''disablePseudoTty'') ?opts) None
             = Inr [''--user'', ''root'']"
    by code_simp
  have o: "or_empty (element [JStr ''ls'', JArr [JStr ''-l'']] 0) = JStr ''ls''"
          "or_empty (element [JStr ''ls''] 0) = JStr ''ls''"
    by (simp_all add: or_empty_def element_def)
  note t = exec_run_omit_service
         [of "\<lparr>machine = None, configPaths = []\<rparr>" "''db''" "[JStr ''ls'']" "[]" ?opts
             "[''--user'', ''root'']" "JStr ''db''"]
  note u = exec_run_omit_service
         [of "\<lparr>machine = None, configPaths = []\<rparr>" "''db''" "[JStr ''ls'', JArr [JStr ''-l'']]" "[]"
             ?opts "[''--user'', ''root'']" "JStr ''db''"]
  from t have "run \<lparr>machine = None, configPaths = []\<rparr> [JStr ''db'', JStr ''ls''] []
     = (Inr 0,
        [\<lparr>program = ''docker-compose'',
          argv = [JStr ''run'', JStr ''ls''],
          options = \<lparr>env = None, windowsHide = True\<rparr>\<rparr>])"
    by (simp add: o)
  moreover from u e have "exec \<lparr>machine = None, configPaths = []\<rparr>
     [JObj ?opts, JStr ''db'', JStr ''ls'', JArr [JStr ''-l'']] []
     = (Inr 0,
        [\<lparr>program = ''docker-compose'',
          argv = [JStr ''exec'', JStr ''--user'', JStr ''root'', JStr ''-T'', JStr ''ls'',
                  JArr [JStr ''-l'']],
          options = \<lparr>env = None, windowsHide = True\<rparr>\<rparr>])"
    by (simp add: o)
  ultimately show ?thesis by simp
qed

section \<open>Properties of the process facade\<close>

lemma on_event_settled: "p \<noteq> Pending \<Longrightarrow> on_event prog ev p = p"
  by (cases p; cases ev) (simp_all add: on_event_def resolve_def reject_def)

lemma settled_stays:
  "p \<noteq> Pending \<Longrightarrow> foldl (\<lambda>p ev. on_event prog ev p) p evs = p"
  by (induction evs) (simp_all add: on_event_settled)

lemma on_event_pending_settles: "on_event prog ev Pending \<noteq> Pending"
  by (cases ev) (simp_all add: on_event_def resolve_def reject_def)

lemma completion_first_event:
  "completion prog (ev # later) = on_event prog ev Pending"
  by (simp add: completion_def settled_stays [OF on_event_pending_settles])

text \<open>
  Claim C6. The completion signal is settled by the first event of the child and keeps that
  state. It resolves exactly when that event is a \<^verbatim>\<open>close\<close> with exit code 0. On a \<^verbatim>\<open>close\<close>
  with any other code it is rejected with an error whose message is the program name, the words
  \<open>responded with non-zero code\<close> and the code. On an \<^verbatim>\<open>error\<close> event (the child could not be
  started) it is rejected with that error at once, whether or not a \<^verbatim>\<open>close\<close> follows.
\<close>

theorem completion_signal:
  "(completion prog evs = Resolved () \<longleftrightarrow>
      (\<exists>signal later. evs = CloseEvent (Some 0) signal # later))
   \<and> (code \<noteq> Some 0 \<longrightarrow>
        completion prog (CloseEvent code signal # later) =
          Rejected (ExitError (prog @ '' responded with non-zero code '' @
                      (case code of None \<Rightarrow> ''null'' | Some c \<Rightarrow> decimal_numeral c))))
   \<and> completion prog (ErrorEvent err # later) = Rejected err
   \<and> completion prog [] = Pending"
proof (intro conjI)
  show "completion prog evs = Resolved () \<longleftrightarrow>
      (\<exists>signal later. evs = CloseEvent (Some 0) signal # later)"
  proof (cases evs)
    case Nil
    then show ?thesis by (simp add: completion_def)
  next
    case (Cons ev later)
    show ?thesis
      unfolding Cons completion_first_event
      by (cases ev) (auto simp: on_event_def resolve_def reject_def)
  qed
  show "code \<noteq> Some 0 \<longrightarrow>
        completion prog (CloseEvent code signal # later) =
          Rejected (ExitError (prog @ '' responded with non-zero code '' @
                      (case code of None \<Rightarrow> ''null'' | Some c \<Rightarrow> decimal_numeral c)))"
    by (simp add: completion_first_event on_event_def reject_def)
  show "completion prog (ErrorEvent err # later) = Rejected err"
    by (simp add: completion_first_event on_event_def reject_def)
  show "completion prog [] = Pending"
    by (simp add: completion_def)
qed

theorem completion_signal_witness:
  "completion ''docker-compose'' [CloseEvent (Some 0) None] = Resolved ()
   \<and> completion ''docker-compose'' [CloseEvent (Some 3) None]
       = Rejected (ExitError ''docker-compose responded with non-zero code 3'')
   \<and> completion ''docker-compose''
        [ErrorEvent (ChildError ''spawn docker-compose ENOENT''), CloseEvent (Some (- 2)) None]
       = Rejected (ChildError ''spawn docker-compose ENOENT'')"
proof -
  have n: "decimal_numeral 3 = ''3''"
    by code_simp
  note t = completion_signal
    [of "''docker-compose''" "[CloseEvent (Some 0) None]" "Some 3" None "[]"
        "ChildError ''spawn docker-compose ENOENT''"]
  note u = completion_signal
    [of "''docker-compose''" "[]" "Some 3" None "[CloseEvent (Some (- 2)) None]"
        "ChildError ''spawn docker-compose ENOENT''"]
  from t have "completion ''docker-compose'' [CloseEvent (Some 0) None] = Resolved ()"
    by blast
  moreover from t have "completion ''docker-compose'' [CloseEvent (Some 3) None]
       = Rejected (ExitError (''docker-compose'' @ '' responded with non-zero code '' @
                      (case Some 3 of None \<Rightarrow> ''null'' | Some c \<Rightarrow> decimal_numeral c)))"
    by simp
  moreover from u have "completion ''docker-compose''
        [ErrorEvent (ChildError ''spawn docker-compose ENOENT''), CloseEvent (Some (- 2)) None]
       = Rejected (ChildError ''spawn docker-compose ENOENT'')"
    by blast
  ultimately show ?thesis
    by (simp add: n)
qed

section \<open>Properties of the environment parser and of the host handle\<close>

text \<open>\<^verbatim>\<open>indexOf\<close> gives \<open>-1\<close> exactly on the strings that do not contain the text looked for.\<close>

lemma index_of_None:
  "index_of s sub = None \<longleftrightarrow> \<not> (\<exists>pre post. s = pre @ sub @ post)"
proof (induction s)
  case Nil
  then show ?case by auto
next
  case (Cons c cs)
  show ?case
  proof (cases "take (length sub) (c # cs) = sub")
    case True
    then have "c # cs = [] @ sub @ drop (length sub) (c # cs)"
      by (metis append_Nil append_take_drop_id)
    with True show ?thesis by (auto simp del: append_Nil)
  next
    case False
    have "(\<exists>pre post. c # cs = pre @ sub @ post) \<longleftrightarrow> (\<exists>pre post. cs = pre @ sub @ post)"
    proof
      assume "\<exists>pre post. c # cs = pre @ sub @ post"
      then obtain pre post where p: "c # cs = pre @ sub @ post" by blast
      show "\<exists>pre post. cs = pre @ sub @ post"
      proof (cases pre)
        case Nil
        with p have "take (length sub) (c # cs) = sub" by simp
        with False show ?thesis by simp
      next
        case (Cons a pre')
        with p show ?thesis by auto
      qed
    next
      assume "\<exists>pre post. cs = pre @ sub @ post"
      then obtain pre post where "cs = pre @ sub @ post" by blast
      then have "c # cs = (c # pre) @ sub @ post" by simp
      then show "\<exists>pre post. c # cs = pre @ sub @ post" by blast
    qed
    with False Cons.IH show ?thesis by simp
  qed
qed

lemma indexOf_absent:
  "indexOf s sub > - 1 \<longleftrightarrow> (\<exists>pre post. s = pre @ sub @ post)"
  using index_of_None [of s sub]
  by (auto simp: indexOf_def split: option.splits)

lemma find_sentinel_None:
  "\<forall>line \<in> set ls. \<not> (\<exists>pre post. line = pre @ DOCKER_MACHINE_NAME @ post) \<Longrightarrow>
   find (\<lambda>line. indexOf line DOCKER_MACHINE_NAME > - 1) ls = None"
  by (simp add: find_None_iff indexOf_absent)

lemma parse_env_no_sentinel:
  "\<forall>line \<in> set (split_lines out). \<not> (\<exists>pre post. line = pre @ DOCKER_MACHINE_NAME @ post) \<Longrightarrow>
   parse_env RegExp name out = Inl TypeError"
  by (simp add: parse_env_def Let_def find_sentinel_None)

lemma DockerMachine_env_promise:
  "DockerMachine_env RegExp name r ps =
     (then_promise (completion ''docker-machine'' (events r))
        (\<lambda>u. parse_env RegExp name (concat (stdout r))),
      ps @ [\<lparr>program = ''docker-machine'', argv = [JStr ''env'', JStr name],
             options = \<lparr>env = None, windowsHide = True\<rparr>\<rparr>])"
  by (simp add: DockerMachine_env_def spawnDockerMachine_def spawnDockerToolbox_def Let_def)

text \<open>
  Claim C5. When no line of the captured output of the \<^verbatim>\<open>env\<close> query contains the text
  \<open>DOCKER_MACHINE_NAME\<close>, the parser does not return a mapping: it throws (the \<^verbatim>\<open>TypeError\<close> of
  reading \<^verbatim>\<open>indexOf\<close> of \<^verbatim>\<open>undefined\<close>). The promise of \<^verbatim>\<open>DockerMachine.env\<close> is then never
  resolved, whatever the child does, and it is rejected with that error once the child has
  closed with exit code 0.
\<close>

theorem missing_sentinel_fails:
  assumes "\<forall>line \<in> set (split_lines (concat (stdout r))).
             \<not> (\<exists>pre post. line = pre @ DOCKER_MACHINE_NAME @ post)"
  shows "parse_env RegExp name (concat (stdout r)) = Inl TypeError
    \<and> (\<forall>m. fst (DockerMachine_env RegExp name r ps) \<noteq> Resolved m)
    \<and> (completion ''docker-machine'' (events r) = Resolved () \<longrightarrow>
         fst (DockerMachine_env RegExp name r ps) = Rejected TypeError)"
  using parse_env_no_sentinel [OF assms, of RegExp name]
  by (cases "completion ''docker-machine'' (events r)")
     (simp_all add: DockerMachine_env_promise then_promise_def)

theorem missing_sentinel_fails_witness:
  "parse_env example_RegExp ''test-machine''
     (concat [''Error checking TLS connection: '', ''Host is not running'' @ LF])
     = Inl TypeError
   \<and> fst (DockerMachine_env example_RegExp ''test-machine''
        \<lparr>stdout = [''Error checking TLS connection: '', ''Host is not running'' @ LF],
          events = [CloseEvent (Some 0) None]\<rparr> [])
     = Rejected TypeError"
proof -
  let ?r = "\<lparr>stdout = [''Error checking TLS connection: '', ''Host is not running'' @ LF],
             events = [CloseEvent (Some 0) None]\<rparr>"
  have "\<forall>line \<in> set (split_lines (concat (stdout ?r))).
          \<not> (indexOf line DOCKER_MACHINE_NAME > - 1)"
    by code_simp
  then have h: "\<forall>line \<in> set (split_lines (concat (stdout ?r))).
          \<not> (\<exists>pre post. line = pre @ DOCKER_MACHINE_NAME @ post)"
    by (simp only: indexOf_absent)
  have c: "completion ''docker-machine'' (events ?r) = Resolved ()"
    by code_simp
  from missing_sentinel_fails [OF h, of example_RegExp "''test-machine''" "[]"] c
  show ?thesis by simp
qed

lemma refreshEnv_cases:
  "refreshEnv RegExp this r ps =
     (case fst (DockerMachine_env RegExp (machine_name this) r ps) of
        Resolved e \<Rightarrow> (Resolved e, this\<lparr>machine_env := e\<rparr>,
                        snd (DockerMachine_env RegExp (machine_name this) r ps))
      | Rejected err \<Rightarrow> (Rejected err, this,
                        snd (DockerMachine_env RegExp (machine_name this) r ps))
      | Pending \<Rightarrow> (Pending, this, snd (DockerMachine_env RegExp (machine_name this) r ps)))"
  by (simp add: refreshEnv_def split: prod.splits promise.splits)

text \<open>
  Claim C8. A refresh whose query succeeds (the child closes with exit code 0 and the parser
  returns a mapping) resolves with that mapping and leaves the handle holding it, the name
  unchanged. A refresh whose query fails (the child fails, or the parser throws) is rejected
  with the error and leaves the handle exactly as it was; so is the handle while the query is
  pending. The first query, \<^verbatim>\<open>DockerMachine.get\<close>, gives a handle holding the parsed mapping when
  it succeeds and no handle when it fails.
\<close>

theorem refreshEnv_all_or_nothing:
  "(completion ''docker-machine'' (events r) = Resolved () \<and>
    parse_env RegExp (machine_name this) (concat (stdout r)) = Inr e \<longrightarrow>
      fst (refreshEnv RegExp this r ps) = Resolved e \<and>
      fst (snd (refreshEnv RegExp this r ps)) = this\<lparr>machine_env := e\<rparr>)
   \<and> (completion ''docker-machine'' (events r) = Rejected err \<or>
       completion ''docker-machine'' (events r) = Resolved () \<and>
       parse_env RegExp (machine_name this) (concat (stdout r)) = Inl err \<longrightarrow>
      fst (refreshEnv RegExp this r ps) = Rejected err \<and>
      fst (snd (refreshEnv RegExp this r ps)) = this)
   \<and> (completion ''docker-machine'' (events r) = Pending \<longrightarrow>
      fst (refreshEnv RegExp this r ps) = Pending \<and>
      fst (snd (refreshEnv RegExp this r ps)) = this)
   \<and> (completion ''docker-machine'' (events r) = Resolved () \<and>
       parse_env RegExp name (concat (stdout r)) = Inr e \<longrightarrow>
      fst (DockerMachine_get RegExp name r ps)
        = Resolved \<lparr>machine_name = name, machine_env = e\<rparr>)
   \<and> (completion ''docker-machine'' (events r) = Rejected err \<or>
       completion ''docker-machine'' (events r) = Resolved () \<and>
       parse_env RegExp name (concat (stdout r)) = Inl err \<longrightarrow>
      fst (DockerMachine_get RegExp name r ps) = Rejected err)"
  by (auto simp: refreshEnv_cases DockerMachine_get_def DockerMachine_env_promise
        then_promise_def)

theorem refreshEnv_all_or_nothing_witness:
  "refreshEnv example_RegExp
     \<lparr>machine_name = ''test-machine'', machine_env = [(''DOCKER_HOST'', JStr ''tcp://old'')]\<rparr>
     \<lparr>stdout = [''export DOCKER_HOST='' @ QUOTE @ ''tcp://10.0.0.5:2376'' @ QUOTE @ LF,
                ''export DOCKER_MACHINE_NAME='' @ QUOTE @ ''test-machine'' @ QUOTE @ LF],
       events = [CloseEvent (Some 0) None]\<rparr> []
     = (Resolved [(''DOCKER_HOST'', JStr ''tcp://10.0.0.5:2376''),
                  (''DOCKER_MACHINE_NAME'', JStr ''test-machine'')],
        \<lparr>machine_name = ''test-machine'',
          machine_env = [(''DOCKER_HOST'', JStr ''tcp://10.0.0.5:2376''),
                         (''DOCKER_MACHINE_NAME'', JStr ''test-machine'')]\<rparr>,
        [\<lparr>program = ''docker-machine'', argv = [JStr ''env'', JStr ''test-machine''],
          options = \<lparr>env = None, windowsHide = True\<rparr>\<rparr>])
   \<and> fst (refreshEnv example_RegExp
     \<lparr>machine_name = ''test-machine'', machine_env = [(''DOCKER_HOST'', JStr ''tcp://old'')]\<rparr>
     \<lparr>stdout = [], events = [CloseEvent (Some 1) None]\<rparr> [])
     = Rejected (ExitError ''docker-machine responded with non-zero code 1'')
   \<and> fst (snd (refreshEnv example_RegExp
     \<lparr>machine_name = ''test-machine'', machine_env = [(''DOCKER_HOST'', JStr ''tcp://old'')]\<rparr>
     \<lparr>stdout = [], events = [CloseEvent (Some 1) None]\<rparr> []))
     = \<lparr>machine_name = ''test-machine'', machine_env = [(''DOCKER_HOST'', JStr ''tcp://old'')]\<rparr>"
proof -
  let ?h = "\<lparr>machine_name = ''test-machine'',
                 machine_env = [(''DOCKER_HOST'', JStr ''tcp://old'')]\<rparr>"
  let ?ok = "\<lparr>stdout = [''export DOCKER_HOST='' @ QUOTE @ ''tcp://10.0.0.5:2376'' @ QUOTE @ LF,
                ''export DOCKER_MACHINE_NAME='' @ QUOTE @ ''test-machine'' @ QUOTE @ LF],
              events = [CloseEvent (Some 0) None]\<rparr>"
  let ?ko = "\<lparr>stdout = [], events = [CloseEvent (Some 1) None]\<rparr>"
  let ?e = "[(''DOCKER_HOST'', JStr ''tcp://10.0.0.5:2376''),
             (''DOCKER_MACHINE_NAME'', JStr ''test-machine'')]"
  have c1: "completion ''docker-machine'' (events ?ok) = Resolved ()"
    by code_simp
  have p1: "parse_env example_RegExp (machine_name ?h) (concat (stdout ?ok)) = Inr ?e"
    by code_simp
  have c2: "completion ''docker-machine'' (events ?ko)
              = Rejected (ExitError ''docker-machine responded with non-zero code 1'')"
    by code_simp
  have s: "snd (snd (refreshEnv example_RegExp ?h ?ok []))
             = [\<lparr>program = ''docker-machine'', argv = [JStr ''env'', JStr ''test-machine''],
                 options = \<lparr>env = None, windowsHide = True\<rparr>\<rparr>]"
    by (simp add: refreshEnv_cases DockerMachine_env_promise split: promise.splits)
  from refreshEnv_all_or_nothing
         [of ?ok example_RegExp ?h ?e "[]" _ "''test-machine''"] c1 p1
  have ok: "fst (refreshEnv example_RegExp ?h ?ok []) = Resolved ?e"
           "fst (snd (refreshEnv example_RegExp ?h ?ok [])) = ?h\<lparr>machine_env := ?e\<rparr>"
    by blast+
  from refreshEnv_all_or_nothing
         [of ?ko example_RegExp ?h _ "[]"
             "ExitError ''docker-machine responded with non-zero code 1''" "''test-machine''"] c2
  have ko: "fst (refreshEnv example_RegExp ?h ?ko [])
              = Rejected (ExitError ''docker-machine responded with non-zero code 1'')"
           "fst (snd (refreshEnv example_RegExp ?h ?ko [])) = ?h"
    by blast+
  from ok s have "refreshEnv example_RegExp ?h ?ok []
                    = (Resolved ?e, ?h\<lparr>machine_env := ?e\<rparr>,
                       [\<lparr>program = ''docker-machine'',
                          argv = [JStr ''env'', JStr ''test-machine''],
                          options = \<lparr>env = None, windowsHide = True\<rparr>\<rparr>])"
    by (metis prod.collapse)
  with ko show ?thesis by simp
qed

section \<open>Properties of the line splitter and of the event stream\<close>

lemma index_of_newline:
  "CHR 0x0A \<notin> set pre \<Longrightarrow> index_of (pre @ CHR 0x0A # post) [CHR 0x0A] = Some (length pre)"
  by (induction pre) auto

lemma index_of_no_newline:
  "CHR 0x0A \<notin> set s \<Longrightarrow> index_of s [CHR 0x0A] = None"
  by (induction s) auto

lemma indexOf_newline:
  "CHR 0x0A \<notin> set pre \<Longrightarrow> indexOf (pre @ LF @ post) [CHR 0x0A] = int (length pre)"
  by (simp add: indexOf_def LF_def index_of_newline)

lemma indexOf_no_newline:
  "CHR 0x0A \<notin> set s \<Longrightarrow> indexOf s [CHR 0x0A] = - 1"
  by (simp add: indexOf_def index_of_no_newline)

lemma substr_prefix: "substr (pre @ post) 0 (int (length pre)) = pre"
  by (simp add: substr_def)

lemma substr_from_prefix: "substr_from (pre @ post) (int (length pre)) = post"
  by (simp add: substr_from_def)

subsection \<open>The line splitter\<close>

lemma chunkLoop_no_newline:
  "CHR 0x0A \<notin> set chunk \<Longrightarrow>
   chunkLoop push_ok (Suc fuel) st chunk = Done (st\<lparr>currentLine := currentLine st @ chunk\<rparr>)"
  by (simp add: indexOf_no_newline)

lemma chunkLoop_pushed_grows:
  "\<exists>more. pushed (final (chunkLoop push_ok fuel st chunk)) = pushed st @ more"
proof (induction fuel arbitrary: st chunk)
  case 0
  then show ?case by simp
next
  case (Suc fuel)
  show ?case
  proof (cases "indexOf chunk [CHR 0x0A] > - 1")
    case False
    then show ?thesis by simp
  next
    case True
    let ?line = "currentLine st @ substr chunk 0 (indexOf chunk [CHR 0x0A])"
    let ?st' = "st\<lparr>currentLine := [], pushed := pushed st @ [?line]\<rparr>"
    show ?thesis
    proof (cases "push_ok (pushed st @ [?line])")
      case False
      with True show ?thesis by (simp add: Let_def)
    next
      case ok: True
      from Suc.IH [of ?st' "substr_from chunk (indexOf chunk [CHR 0x0A])"]
      obtain more where
        "pushed (final (chunkLoop push_ok fuel ?st'
           (substr_from chunk (indexOf chunk [CHR 0x0A])))) = pushed ?st' @ more"
        by blast
      with True ok show ?thesis by (simp add: Let_def)
    qed
  qed
qed

lemma chunkLoop_first_unit:
  assumes "CHR 0x0A \<notin> set pre"
  shows "\<exists>more. pushed (final (chunkLoop push_ok (Suc fuel) st (pre @ LF @ post)))
           = pushed st @ [currentLine st @ pre] @ more"
proof -
  let ?st' = "st\<lparr>currentLine := [], pushed := pushed st @ [currentLine st @ pre]\<rparr>"
  show ?thesis
  proof (cases "push_ok (pushed st @ [currentLine st @ pre])")
    case False
    then show ?thesis
      by (simp add: indexOf_newline [OF assms] substr_prefix substr_from_prefix Let_def)
  next
    case True
    from chunkLoop_pushed_grows [of push_ok fuel ?st' "LF @ post"] obtain more where
      "pushed (final (chunkLoop push_ok fuel ?st' (LF @ post))) = pushed ?st' @ more"
      by blast
    with True show ?thesis
      by (simp add: indexOf_newline [OF assms] substr_prefix substr_from_prefix Let_def)
  qed
qed

lemma feed_pushed_grows:
  "\<exists>more. pushed (final (feed push_ok fuel st chunks)) = pushed st @ more"
proof (induction chunks arbitrary: st)
  case Nil
  then show ?case by simp
next
  case (Cons chunk chunks)
  show ?case
  proof (cases "attached st")
    case False
    with Cons.IH [of st] show ?thesis by simp
  next
    case True
    from chunkLoop_pushed_grows [of push_ok fuel st chunk] obtain m1 where
      m1: "pushed (final (chunkLoop push_ok fuel st chunk)) = pushed st @ m1" by blast
    show ?thesis
    proof (cases "chunkLoop push_ok fuel st chunk")
      case (Done st')
      from Cons.IH [of st'] obtain m2 where
        "pushed (final (feed push_ok fuel st' chunks)) = pushed st' @ m2" by blast
      with Done m1 True show ?thesis by (simp add: chunkHandler_def)
    next
      case (Threw e st')
      with m1 True show ?thesis by (simp add: chunkHandler_def)
    next
      case (OutOfFuel st')
      with m1 True show ?thesis by (simp add: chunkHandler_def)
    qed
  qed
qed

lemma feed_ab:
  "feed push_ok (Suc fuel) lrs_init [''ab'']
     = Done \<lparr>currentLine = ''ab'', attached = True, pushed = []\<rparr>"
  by (simp add: lrs_init_def chunkHandler_def chunkLoop_no_newline del: chunkLoop.simps)

lemma feed_ab_then:
  "feed push_ok (Suc fuel) lrs_init (''ab'' # chunks)
     = feed push_ok (Suc fuel) \<lparr>currentLine = ''ab'', attached = True, pushed = []\<rparr> chunks"
  by (simp add: lrs_init_def chunkHandler_def chunkLoop_no_newline del: chunkLoop.simps)

lemma feed_first_unit:
  "\<exists>more. pushed (final (feed push_ok (Suc fuel) lrs_init (''ab'' # (''c'' @ LF @ ''de'') # chunks)))
     = ''abc'' # more"
proof -
  let ?st = "\<lparr>currentLine = ''ab'', attached = True, pushed = []\<rparr>"
  define C where "C = ''c'' @ LF @ ''de''"
  have nl: "CHR 0x0A \<notin> set ''c''" by simp
  from chunkLoop_first_unit [OF nl, of push_ok fuel ?st "''de''"] obtain m1 where
    m1: "pushed (final (chunkLoop push_ok (Suc fuel) ?st C)) = ''abc'' # m1"
    unfolding C_def by auto
  have step: "feed push_ok (Suc fuel) lrs_init (''ab'' # C # chunks)
     = (case chunkLoop push_ok (Suc fuel) ?st C of
          Done st' \<Rightarrow> feed push_ok (Suc fuel) st' chunks
        | r \<Rightarrow> r)"
    by (subst feed_ab_then) (simp add: chunkHandler_def del: chunkLoop.simps)
  have "\<exists>more. pushed (final (feed push_ok (Suc fuel) lrs_init (''ab'' # C # chunks)))
     = ''abc'' # more"
  proof (cases "chunkLoop push_ok (Suc fuel) ?st C")
    case (Done st')
    from feed_pushed_grows [of push_ok "Suc fuel" st' chunks] obtain m2 where
      "pushed (final (feed push_ok (Suc fuel) st' chunks)) = pushed st' @ m2" by blast
    with Done m1 show ?thesis
      unfolding step by simp
  next
    case (Threw e st')
    with m1 show ?thesis
      unfolding step by simp
  next
    case (OutOfFuel st')
    with m1 show ?thesis
      unfolding step by simp
  qed
  then show ?thesis
    unfolding C_def .
qed

text \<open>With a consumer that never says stop, the handler does not return from a chunk that
  holds a newline, whatever the fuel: line 103 keeps the newline at the head of \<^verbatim>\<open>chunkStr\<close>.\<close>

lemma chunkLoop_newline_head:
  "\<exists>st'. chunkLoop always_continue fuel st (LF @ post) = OutOfFuel st'"
proof (induction fuel arbitrary: st)
  case 0
  then show ?case by simp
next
  case (Suc fuel)
  have i: "indexOf (LF @ post) [CHR 0x0A] = 0"
    using indexOf_newline [of "[]" post] by simp
  have s: "substr_from (LF @ post) 0 = LF @ post"
    by (simp add: substr_from_def)
  from Suc.IH show ?case
    by (simp add: i s always_continue_def Let_def del: append.simps)
qed

lemma chunkLoop_never_returns:
  assumes "CHR 0x0A \<in> set chunk"
  shows "\<exists>st'. chunkLoop always_continue fuel st chunk = OutOfFuel st'"
proof (cases fuel)
  case 0
  then show ?thesis by simp
next
  case (Suc n)
  from assms obtain pre post where
    c: "chunk = pre @ CHR 0x0A # post" "CHR 0x0A \<notin> set pre"
    by (meson split_list_first)
  then have c': "chunk = pre @ LF @ post" by (simp add: LF_def)
  from chunkLoop_newline_head
    [of n "st\<lparr>currentLine := [], pushed := pushed st @ [currentLine st @ pre]\<rparr>" post]
  show ?thesis
    unfolding Suc c'
    by (simp add: indexOf_newline [OF c(2)] substr_prefix substr_from_prefix
          always_continue_def Let_def del: append.simps)
qed

text \<open>
  Claim C4, as stated, fails. With a consumer that never says stop, the three chunks give
  the unit \<open>abc\<close> and then empty units, and the handler has not returned from the second chunk
  when its fuel is used up; with a consumer that says stop at the first unit, the handler is
  taken off after \<open>abc\<close> and the rest is never read. In neither case are the units \<open>abcde\<close>
  and \<open>f\<close>.
\<close>

theorem line_splitter_counterexample:
  "feed always_continue 4 lrs_init example_chunks
     = OutOfFuel \<lparr>currentLine = [], attached = True, pushed = [''abc'', [], [], []]\<rparr>
   \<and> feed stop_at_once 4 lrs_init example_chunks
     = Done \<lparr>currentLine = [], attached = False, pushed = [''abc'']\<rparr>
   \<and> pushed (final (feed always_continue 4 lrs_init example_chunks)) \<noteq> [''abcde'', ''f'']
   \<and> pushed (final (feed stop_at_once 4 lrs_init example_chunks)) \<noteq> [''abcde'', ''f'']"
proof -
  have 1: "feed always_continue 4 lrs_init example_chunks
     = OutOfFuel \<lparr>currentLine = [], attached = True, pushed = [''abc'', [], [], []]\<rparr>"
    by code_simp
  have 2: "feed stop_at_once 4 lrs_init example_chunks
     = Done \<lparr>currentLine = [], attached = False, pushed = [''abc'']\<rparr>"
    by code_simp
  show ?thesis
    unfolding 1 2 by simp
qed

text \<open>
  Claim C4, amended. For every consumer, and whenever the handler has fuel for at least one
  pass: the chunk \<open>ab\<close>, which holds no newline, is buffered and no unit is emitted; and when
  the chunk \<open>c\<close>, newline, \<open>de\<close> follows, the first unit emitted is \<open>abc\<close>, the text buffered
  before that newline, without the newline. The same holds when the third chunk follows.
\<close>

theorem line_splitter_first_unit:
  "feed push_ok (Suc fuel) lrs_init [''ab'']
     = Done \<lparr>currentLine = ''ab'', attached = True, pushed = []\<rparr>
   \<and> take 1 (pushed (final (feed push_ok (Suc fuel) lrs_init [''ab'', ''c'' @ LF @ ''de''])))
       = [''abc'']
   \<and> take 1 (pushed (final (feed push_ok (Suc fuel) lrs_init example_chunks))) = [''abc'']"
proof -
  from feed_first_unit [of push_ok fuel "[]"] obtain m1 where
    "pushed (final (feed push_ok (Suc fuel) lrs_init [''ab'', ''c'' @ LF @ ''de''])) = ''abc'' # m1"
    by blast
  moreover from feed_first_unit [of push_ok fuel "[''f'' @ LF]"] obtain m2 where
    "pushed (final (feed push_ok (Suc fuel) lrs_init example_chunks)) = ''abc'' # m2"
    unfolding example_chunks_def by blast
  ultimately show ?thesis
    using feed_ab [of push_ok fuel] by simp
qed

theorem line_splitter_first_unit_witness:
  "feed always_continue (Suc 3) lrs_init [''ab'']
     = Done \<lparr>currentLine = ''ab'', attached = True, pushed = []\<rparr>
   \<and> take 1 (pushed (final (feed always_continue (Suc 3) lrs_init example_chunks))) = [''abc'']"
  using line_splitter_first_unit [of always_continue 3] by blast

subsection \<open>The event stream\<close>

lemma subject_next_grows: "\<exists>more. subject_next v ns = ns @ more"
  by (simp add: subject_next_def)

lemma eventsLoop_delivered_grows:
  "\<exists>more. delivered (final (eventsLoop JSON_parse fuel st chunk)) = delivered st @ more"
proof (induction fuel arbitrary: st chunk)
  case 0
  then show ?case by simp
next
  case (Suc fuel)
  show ?case
  proof (cases "indexOf chunk [CHR 0x0A] > - 1")
    case False
    then show ?thesis by simp
  next
    case True
    let ?line = "ev_currentLine st @ substr chunk 0 (indexOf chunk [CHR 0x0A])"
    show ?thesis
    proof (cases "JSON_parse ?line")
      case None
      with True show ?thesis by (simp add: Let_def)
    next
      case (Some ev)
      let ?st' = "\<lparr>ev_currentLine = [], delivered = subject_next ev (delivered st)\<rparr>"
      from Suc.IH [of ?st' "substr_from chunk (indexOf chunk [CHR 0x0A])"]
      obtain m1 where
        "delivered (final (eventsLoop JSON_parse fuel ?st'
           (substr_from chunk (indexOf chunk [CHR 0x0A])))) = delivered ?st' @ m1"
        by blast
      moreover from subject_next_grows obtain m2 where
        "subject_next ev (delivered st) = delivered st @ m2" by blast
      ultimately show ?thesis
        using True Some by (simp add: Let_def)
    qed
  qed
qed

lemma events_malformed:
  assumes "CHR 0x0A \<notin> set line" and "JSON_parse (ev_currentLine st @ line) = None"
  shows "events_data JSON_parse (Suc fuel) st (line @ LF @ rest)
           = Threw SyntaxError (st\<lparr>ev_currentLine := ev_currentLine st @ line\<rparr>)"
  using assms(2)
  by (simp add: events_data_def indexOf_newline [OF assms(1)] substr_prefix Let_def)

lemma events_wellformed:
  assumes "CHR 0x0A \<notin> set line" and "JSON_parse (ev_currentLine st @ line) = Some ev"
    and "\<not> isStopped (delivered st)"
  shows "\<exists>more. delivered (final (events_data JSON_parse (Suc fuel) st (line @ LF @ rest)))
           = delivered st @ [Next ev] @ more"
proof -
  let ?st' = "\<lparr>ev_currentLine = [], delivered = delivered st @ [Next ev]\<rparr>"
  from eventsLoop_delivered_grows [of JSON_parse fuel ?st' "LF @ rest"] obtain more where
    "delivered (final (eventsLoop JSON_parse fuel ?st' (LF @ rest))) = delivered ?st' @ more"
    by blast
  with assms(2,3) show ?thesis
    by (simp add: events_data_def indexOf_newline [OF assms(1)] substr_prefix substr_from_prefix
          subject_next_def Let_def)
qed

text \<open>
  Claim C7, as stated, fails in its second half. On a line that is not JSON the listener of
  \<^verbatim>\<open>stdout\<close> is left by the \<^verbatim>\<open>SyntaxError\<close> of \<^verbatim>\<open>JSON.parse\<close>, with the line still in its buffer,
  and the subscribers of the event stream have received nothing, an error no more than a
  record; when the child then closes with exit code 0 the stream completes.
\<close>

theorem malformed_line_counterexample:
  "events_data example_JSON_parse 4 events_init (malformed_line @ LF)
     = Threw SyntaxError \<lparr>ev_currentLine = malformed_line, delivered = []\<rparr>
   \<and> delivered (final (events_data example_JSON_parse 4 events_init (malformed_line @ LF))) = []
   \<and> delivered (events_settled (completion ''docker-compose'' [CloseEvent (Some 0) None])
        (final (events_data example_JSON_parse 4 events_init (malformed_line @ LF))))
     = [Complete]"
proof -
  have 1: "events_data example_JSON_parse 4 events_init (malformed_line @ LF)
     = Threw SyntaxError \<lparr>ev_currentLine = malformed_line, delivered = []\<rparr>"
    by code_simp
  have 2: "completion ''docker-compose'' [CloseEvent (Some 0) None] = Resolved ()"
    by code_simp
  show ?thesis
    unfolding 1 2 by (simp add: events_settled_def subject_complete_def isStopped_def)
qed

text \<open>
  Claim C7, amended. When a chunk brings a newline, the listener parses the line that its
  first newline ends: the text buffered so far and the text of the chunk before that newline.
  If it is well-formed and the stream has not stopped, the record that
  \<^verbatim>\<open>JSON.parse\<close> gives is the next thing delivered to the subscribers. If it is malformed, the
  \<^verbatim>\<open>SyntaxError\<close> of \<^verbatim>\<open>JSON.parse\<close> leaves the listener: the line stays in the buffer and nothing
  is delivered, so the line is not dropped in silence, but the error does not go to the error
  channel of the stream, which carries the failure of the subprocess only.
\<close>

theorem event_decoding:
  assumes "CHR 0x0A \<notin> set line"
  shows "(JSON_parse (ev_currentLine st @ line) = Some ev \<and> \<not> isStopped (delivered st) \<longrightarrow>
           (\<exists>more. delivered (final (events_data JSON_parse (Suc fuel) st (line @ LF @ rest)))
              = delivered st @ [Next ev] @ more))
    \<and> (JSON_parse (ev_currentLine st @ line) = None \<longrightarrow>
           events_data JSON_parse (Suc fuel) st (line @ LF @ rest)
             = Threw SyntaxError (st\<lparr>ev_currentLine := ev_currentLine st @ line\<rparr>))
    \<and> (\<forall>err. events_settled (Rejected err) st
           = st\<lparr>delivered := subject_error err (delivered st)\<rparr>)"
  using events_wellformed [OF assms, of JSON_parse st ev fuel rest]
        events_malformed [OF assms, of JSON_parse st fuel rest]
  by (simp add: events_settled_def)

theorem event_decoding_witness:
  "(\<exists>more. delivered (final (events_data example_JSON_parse (Suc 3) events_init
              (example_line @ LF @ [])))
      = delivered events_init @ [Next example_event] @ more)
   \<and> events_data example_JSON_parse (Suc 3) events_init (malformed_line @ LF @ [])
      = Threw SyntaxError (events_init\<lparr>ev_currentLine := ev_currentLine events_init @ malformed_line\<rparr>)"
proof -
  have n1: "CHR 0x0A \<notin> set example_line"
    by code_simp
  have n2: "CHR 0x0A \<notin> set malformed_line"
    by code_simp
  have p1: "example_JSON_parse (ev_currentLine events_init @ example_line) = Some example_event"
    by (simp add: events_init_def example_JSON_parse_def)
  have p2: "example_JSON_parse (ev_currentLine events_init @ malformed_line) = None"
    by code_simp
  have s: "\<not> isStopped (delivered events_init)"
    by (simp add: events_init_def isStopped_def)
  from event_decoding [OF n1, of example_JSON_parse events_init example_event 3 "[]"] p1 s
  have "\<exists>more. delivered (final (events_data example_JSON_parse (Suc 3) events_init
              (example_line @ LF @ [])))
      = delivered events_init @ [Next example_event] @ more"
    by blast
  moreover
  from event_decoding [OF n2, of example_JSON_parse events_init _ 3 "[]"] p2
  have "events_data example_JSON_parse (Suc 3) events_init (malformed_line @ LF @ [])
      = Threw SyntaxError (events_init\<lparr>ev_currentLine := ev_currentLine events_init @ malformed_line\<rparr>)"
    by blast
  ultimately show ?thesis by blast
qed

end
